theory Spec2Isabelle
  imports Main
begin

section \<open>Call records and the store (table \<open>active_calls\<close>)\<close>

text \<open>
  The orchestrator of \<open>src/voicebot/app/main.py\<close> and its sibling
  \<open>src/voicebot/services/stt_translate.py\<close> keep one row per session in the table
  \<open>active_calls\<close>. The columns \<open>status\<close> and \<open>handled_by\<close> only ever receive the
  literals \<open>'Active'\<close>, \<open>'Ended'\<close>, \<open>'Error'\<close> and \<open>'AI'\<close>, \<open>'Human'\<close>, so they are
  datatypes here; all other text columns are strings. A character stands for one code
  point of a Python \<open>str\<close>.
\<close>

datatype call_status = Active | Ended | Error

datatype handler = AI | Human

record call_row =
  caller_name :: string
  caller_number :: "string option"
  location :: string
  status :: call_status
  start_time :: nat
  last_update_time :: nat
  routing_label :: string
  priority :: string
  detected_language :: "string option"
  last_transcript :: "string option"
  confirmation_given :: bool
  handled_by :: handler

text \<open>
  The process-wide \<open>db_pool\<close> is \<open>None\<close> when the start-up connection failed
  (\<open>pool = False\<close>); \<open>rows\<close> is the table, keyed by \<open>session_id\<close>.
\<close>

record db =
  pool :: bool
  rows :: "string \<rightharpoonup> call_row"

text \<open>
  \<open>data_to_update: Dict[str, Any]\<close>: the column assignments the callers build, in
  insertion order. The empty dictionary is the empty list.
\<close>

datatype field_update =
    LastTranscript string
  | DetectedLanguage string
  | CallerName string
  | RoutingLabel string
  | ConfirmationGiven bool
  | Status call_status
  | HandledBy handler

datatype log_entry = PoolUnavailable string | UpdateFailed string

fun apply_field :: "field_update \<Rightarrow> call_row \<Rightarrow> call_row" where
  "apply_field (LastTranscript t) r = r\<lparr>last_transcript := Some t\<rparr>"
| "apply_field (DetectedLanguage l) r = r\<lparr>detected_language := Some l\<rparr>"
| "apply_field (CallerName n) r = r\<lparr>caller_name := n\<rparr>"
| "apply_field (RoutingLabel l) r = r\<lparr>routing_label := l\<rparr>"
| "apply_field (ConfirmationGiven b) r = r\<lparr>confirmation_given := b\<rparr>"
| "apply_field (Status s) r = r\<lparr>status := s\<rparr>"
| "apply_field (HandledBy h) r = r\<lparr>handled_by := h\<rparr>"

text \<open>
  The statement \<open>UPDATE active_calls SET ..., last_update_time = $k WHERE session_id = $i\<close>:
  it changes the row of \<open>sid\<close> when there is one and nothing otherwise.
\<close>

definition execute_update :: "db \<Rightarrow> nat \<Rightarrow> string \<Rightarrow> field_update list \<Rightarrow> db" where
  "execute_update d now sid upd =
     (case rows d sid of
        None \<Rightarrow> d
      | Some r \<Rightarrow>
          d\<lparr>rows := (rows d)(sid \<mapsto> (fold apply_field upd r)\<lparr>last_update_time := now\<rparr>)\<rparr>)"

text \<open>
  \<open>update_call_data\<close> (main.py 216-240, stt\_translate.py 125-158). \<open>exec_ok\<close> says
  whether acquiring the connection and executing the statement succeed; when they raise,
  the \<open>except\<close> clause logs and the function returns. \<open>now\<close> is the clock reading
  \<open>datetime.now(timezone.utc)\<close>. The result is the store and what was logged.
\<close>

definition update_call_data ::
  "db \<Rightarrow> bool \<Rightarrow> nat \<Rightarrow> string \<Rightarrow> field_update list \<Rightarrow> db \<times> log_entry list" where
  "update_call_data d exec_ok now sid data_to_update =
     (if \<not> pool d \<or> data_to_update = [] then
        (d, if \<not> pool d then [PoolUnavailable sid] else [])
      else if exec_ok then (execute_update d now sid data_to_update, [])
      else (d, [UpdateFailed sid]))"

text \<open>
  The upsert that \<open>call_endpoint\<close> runs on every connection (main.py 405-424).
  Modelled from the spec: the declaration of the table is not in the sources, so the
  column defaults of \<open>start_time\<close> and \<open>last_update_time\<close> on a fresh insert are taken
  from the data model of the spec (both set at the first Active transition);
  \<open>last_transcript\<close> is not listed by the insert and starts as NULL.
\<close>

definition fresh_row :: "nat \<Rightarrow> call_row" where
  "fresh_row now =
     \<lparr>caller_name = ''Unknown'', caller_number = None, location = ''Unknown'',
      status = Active, start_time = now, last_update_time = now,
      routing_label = ''Unknown'', priority = ''Normal'', detected_language = None,
      last_transcript = None, confirmation_given = False, handled_by = AI\<rparr>"

definition reset_row :: "nat \<Rightarrow> call_row \<Rightarrow> call_row" where
  "reset_row now r =
     r\<lparr>status := Active,
       start_time := (if status r \<noteq> Active then now else start_time r),
       last_update_time := now,
       caller_name := ''Unknown'', caller_number := None, location := ''Unknown'',
       routing_label := ''Unknown'', priority := ''Normal'', detected_language := None,
       confirmation_given := False, handled_by := AI\<rparr>"

definition upsert_call :: "db \<Rightarrow> nat \<Rightarrow> string \<Rightarrow> db" where
  "upsert_call d now sid =
     d\<lparr>rows := (rows d)(sid \<mapsto>
        (case rows d sid of None \<Rightarrow> fresh_row now | Some r \<Rightarrow> reset_row now r))\<rparr>"

section \<open>The takeover endpoint\<close>

datatype http_error = HTTPException nat

text \<open>
  \<open>takeover_call_endpoint\<close> (main.py 681-705). \<open>fetch_ok\<close>: the \<open>SELECT status\<close>
  does not raise; \<open>fetchval\<close> gives \<open>None\<close> when there is no row, and the three status
  literals are all truthy. The result is the error raised or the store after the 200
  response.
\<close>

definition takeover_call_endpoint ::
  "db \<Rightarrow> bool \<Rightarrow> bool \<Rightarrow> nat \<Rightarrow> string \<Rightarrow> http_error + db" where
  "takeover_call_endpoint d fetch_ok exec_ok now sid =
     (if \<not> pool d then Inl (HTTPException 503)
      else if \<not> fetch_ok then Inl (HTTPException 500)
      else case map_option status (rows d sid) of
             None \<Rightarrow> Inl (HTTPException 404)
           | Some current_status \<Rightarrow>
               if current_status \<noteq> Active then Inl (HTTPException 400)
               else Inr (fst (update_call_data d exec_ok now sid [HandledBy Human])))"

text \<open>A store with one Active session \<open>S1\<close>, last touched at time 10.\<close>

definition example_db :: db where
  "example_db = \<lparr>pool = True, rows = [''S1'' \<mapsto> (fresh_row 10)]\<rparr>"

section \<open>Python strings\<close>

text \<open>
  \<open>str.strip()\<close> and the regular expression class \<open>\s\<close> use the same test for white
  space; on the code points a \<open>char\<close> can hold these are 9-13, 28-32, 133 and 160.
\<close>

definition is_space :: "char \<Rightarrow> bool" where
  "is_space c = (of_char c \<in> {9, 10, 11, 12, 13, 28, 29, 30, 31, 32, 133, 160 :: nat})"

definition strip :: "string \<Rightarrow> string" where
  "strip s = rev (dropWhile is_space (rev (dropWhile is_space s)))"

definition lower_char :: "char \<Rightarrow> char" where
  "lower_char c =
     (let n = (of_char c :: nat)
      in if (65 \<le> n \<and> n \<le> 90) \<or> (192 \<le> n \<and> n \<le> 222 \<and> n \<noteq> 215)
         then char_of (n + 32) else c)"

definition lower :: "string \<Rightarrow> string" where
  "lower s = map lower_char s"

section \<open>The chat endpoint\<close>

datatype role = System | User | Assistant

type_synonym message = "role \<times> string"

text \<open>
  The answer of the hosted language model to one \<open>chat.completions.create\<close> call: the
  call (or reading \<open>choices[0].message.content\<close>) raises, or it yields the content.
\<close>

datatype completion = ApiFailure | Completion string

record chat_request =
  session_id :: string
  input_text :: string
  system_prompt_override :: "string option"

record chat_response =
  response_text :: string
  emotion :: string

definition STANDARD_SYSTEM_PROMPT :: string where
  \<open>STANDARD_SYSTEM_PROMPT =
     ''You are an AI assistant in a real-time emergency call center in Kerala, India. '' @
     ''Speak calmly, ask only one question at a time, and never refer them to 911. '' @
     ''Never redirect to any other service. Always remain the official emergency contact. '' @
     ''The user may have already provided their name.''\<close>

definition valid_emotions :: "string list" where
  "valid_emotions =
     [''calm'', ''confused'', ''urgent'', ''panicked'', ''scared'', ''distressed'',
      ''angry'', ''hopeless'', ''sad'', ''uncertain'']"

text \<open>
  The inner \<open>try\<close> of \<open>chat\<close> (main.py 341-367, response.py 109-141): the answer of the
  model is stripped and lower-cased and kept when it is one of the ten labels; any
  exception gives \<open>"error"\<close>.
\<close>

definition detect_emotion :: "completion \<Rightarrow> string" where
  "detect_emotion c =
     (case c of
        ApiFailure \<Rightarrow> ''error''
      | Completion content \<Rightarrow>
          (let detected_emotion = lower (strip content)
           in if detected_emotion \<in> set valid_emotions then detected_emotion
              else ''unknown''))"

text \<open>The messages \<open>chat\<close> sends to the model: the system prompt, then the memory.\<close>

definition chat_messages :: "chat_request \<Rightarrow> message list \<Rightarrow> message list" where
  "chat_messages req history =
     (System, (case system_prompt_override req of
                 None \<Rightarrow> STANDARD_SYSTEM_PROMPT
               | Some p \<Rightarrow> if p \<noteq> [] then p else STANDARD_SYSTEM_PROMPT)) # history"

text \<open>
  \<open>chat\<close> (main.py 300-373; response.py 46-154 is the same but for the model name).
  \<open>llama\<close> is the model's answer to \<open>chat_messages\<close> and \<open>emo\<close> its answer to the
  emotion question. The memory of the session is created and the user's text appended
  before the \<open>try\<close>, so they stay when the request fails with status 500.
\<close>

definition chat ::
  "(string \<rightharpoonup> message list) \<Rightarrow> completion \<Rightarrow> completion \<Rightarrow> chat_request
     \<Rightarrow> (string \<rightharpoonup> message list) \<times> (http_error + chat_response)" where
  "chat mem llama emo request =
     (let sid = session_id request;
          user_text = strip (input_text request);
          history = (case mem sid of None \<Rightarrow> [] | Some h \<Rightarrow> h);
          history1 = (if user_text \<noteq> [] then history @ [(User, user_text)] else history)
      in case llama of
           ApiFailure \<Rightarrow> (mem(sid \<mapsto> history1), Inl (HTTPException 500))
         | Completion content \<Rightarrow>
             (let generated_response = strip content;
                  history2 = (if generated_response \<noteq> []
                              then history1 @ [(Assistant, generated_response)]
                              else history1);
                  emotion = (if user_text \<noteq> [] then detect_emotion emo else ''unknown'')
              in (mem(sid \<mapsto> history2),
                  Inr \<lparr>response_text = generated_response, emotion = emotion\<rparr>)))"

section \<open>The orchestrator of main.py\<close>

subsection \<open>Prompts\<close>

definition INITIAL_SYSTEM_PROMPT :: string where
  \<open>INITIAL_SYSTEM_PROMPT =
     ''You are an AI assistant in a real-time emergency call center in Kerala, India. '' @
     ''Your FIRST task is to calmly ask the caller for their name. '' @
     ''Say EXACTLY this: "This is the emergency line. Could I please get your name?" '' @
     ''Do not ask any other questions or add any other text in this first turn. '' @
     ''Wait for their response.''\<close>

definition NON_SPECIFIC_ROUTING_LABELS :: "string set" where
  "NON_SPECIFIC_ROUTING_LABELS = {''Unknown'', ''General Inquiry''}"

definition confirmation_phrase :: "string \<Rightarrow> string" where
  "confirmation_phrase department_name =
     ''Understood. I am recording the details for the '' @ department_name @
     ''. Please be assured that someone from that department will contact you shortly.''"

definition create_confirmation_system_prompt :: "string \<Rightarrow> string" where
  \<open>create_confirmation_system_prompt department_name =
     ''You are an AI assistant in a real-time emergency call center in Kerala, India.\<newline>'' @
     ''A specific department has been identified for this user\'s issue: '' @
       department_name @ ''.\<newline>'' @
     ''Your primary task now is to FIRST acknowledge this and give the confirmation. State clearly: "'' @
       confirmation_phrase department_name @ ''"\<newline>'' @
     ''AFTER giving that exact confirmation, you MUST then ask the NEXT single, most important question calmly to gather necessary details. Do not ask multiple questions.\<newline>'' @
     ''Speak calmly. Never refer them to 911 or other services. Always remain the official emergency contact.''\<close>

subsection \<open>Events, session variables and the outside world\<close>

text \<open>The JSON events sent to the caller, by their \<open>type\<close> tag.\<close>

datatype event =
    TranscriptEvent string
  | RoutingInfo string
  | AiAudioResponse string string string
  | AiResponse string
  | SttError nat
  | ErrorEvent string

fun is_response_event :: "event \<Rightarrow> bool" where
  "is_response_event (AiAudioResponse t a l) = True"
| "is_response_event (AiResponse t) = True"
| "is_response_event e = False"

text \<open>The local variables of \<open>call_endpoint\<close> that live across turns.\<close>

record session =
  confirmation_given_this_session :: bool
  awaiting_name :: bool
  caller_name_known :: bool
  current_handler :: handler

text \<open>
  What a turn can change outside its local variables: the store, the process-wide
  \<open>chat_memory\<close>, the events sent on the WebSocket (oldest first) and the requests
  handed to the dialogue service.
\<close>

record world =
  store :: db
  chat_memory :: "string \<rightharpoonup> message list"
  outbox :: "event list"
  llama_requests :: "chat_request list"

text \<open>
  What the collaborators answer during one turn. The speech-to-text call raises a
  \<open>requests\<close> exception, or answers with a status code and a body whose JSON is
  malformed or holds the transcript and, possibly, the language code. The routing call
  fails or gives the \<open>forwarded_to\<close> entry, if any. The Sarvam synthesis call fails to
  connect, answers with an error status, gives the list \<open>audios\<close>, or fails otherwise.
\<close>

datatype stt_body = Malformed | SttJson string "string option"

datatype stt_outcome = SttRequestException | SttResponse nat stt_body

datatype routing_outcome = RoutingError | RoutingOk "string option"

datatype sarvam_tts_outcome =
  TtsRequestError | TtsStatusError nat | TtsAudios "string list" | TtsUnexpected

datatype write_site =
  TranscriptWrite | RoutingWrite | ConfirmationWrite | TouchWrite | StatusWrite

record turn_env =
  clock :: nat
  handler_query_ok :: bool
  stt_result :: stt_outcome
  routing_result :: routing_outcome
  llama_result :: completion
  emotion_result :: completion
  tts_result :: sarvam_tts_outcome
  write_ok :: "write_site \<Rightarrow> bool"

datatype flow = Continue | Break

subsection \<open>Speech synthesis\<close>

text \<open>
  \<open>synthesize_speech\<close> (main.py 246-292): the first element of \<open>audios\<close>, or an
  \<open>HTTPException\<close>; the one raised for a missing or empty list is caught by the
  last \<open>except\<close> clause and raised again with status 500.
\<close>

definition synthesize_speech :: "sarvam_tts_outcome \<Rightarrow> http_error + string" where
  "synthesize_speech out =
     (case out of
        TtsRequestError \<Rightarrow> Inl (HTTPException 503)
      | TtsStatusError code \<Rightarrow> Inl (HTTPException code)
      | TtsAudios audios_base64 \<Rightarrow>
          (case audios_base64 of
             [] \<Rightarrow> Inl (HTTPException 500)
           | audio_base64 # _ \<Rightarrow> Inr audio_base64)
      | TtsUnexpected \<Rightarrow> Inl (HTTPException 500))"

subsection \<open>One audio message\<close>

text \<open>
  The two \<open>except\<close> clauses of the turn (main.py 595-604): an error event, the write of
  \<open>status = Error\<close>, and \<open>break\<close>.
\<close>

definition fail_turn ::
  "turn_env \<Rightarrow> string \<Rightarrow> string \<Rightarrow> session \<Rightarrow> world \<Rightarrow> flow \<times> session \<times> world" where
  "fail_turn env sid msg s w =
     (Break, s,
      w\<lparr>outbox := outbox w @ [ErrorEvent msg],
        store := fst (update_call_data (store w) (write_ok env StatusWrite) (clock env) sid
                        [Status Error])\<rparr>)"

text \<open>
  Stage 3, "Determine LLaMA prompt" (main.py 536-548): the system prompt, whether the
  confirmation is given in this turn, and the session variables after it.
\<close>

definition determine_prompt :: "session \<Rightarrow> string \<Rightarrow> string \<times> bool \<times> session" where
  "determine_prompt s predicted_label =
     (if \<not> caller_name_known s then (INITIAL_SYSTEM_PROMPT, False, s\<lparr>awaiting_name := True\<rparr>)
      else
        (let is_specific_routing =
               (predicted_label \<noteq> [] \<and> predicted_label \<notin> NON_SPECIFIC_ROUTING_LABELS);
             should_give_confirmation =
               (is_specific_routing \<and> \<not> confirmation_given_this_session s)
         in if should_give_confirmation
            then (create_confirmation_system_prompt predicted_label, True,
                  s\<lparr>confirmation_given_this_session := True\<rparr>)
            else (STANDARD_SYSTEM_PROMPT, False, s)))"

text \<open>Stage 2, routing (main.py 517-534): the label and the world after the event.\<close>

definition route_transcript :: "turn_env \<Rightarrow> string \<Rightarrow> world \<Rightarrow> string \<times> world" where
  "route_transcript env sid w =
     (case routing_result env of
        RoutingError \<Rightarrow> (''Unknown'', w\<lparr>outbox := outbox w @ [RoutingInfo ''Unknown'']\<rparr>)
      | RoutingOk forwarded_to \<Rightarrow>
          (let predicted_label = (case forwarded_to of None \<Rightarrow> ''Unknown'' | Some l \<Rightarrow> l)
           in (predicted_label,
               w\<lparr>store := fst (update_call_data (store w) (write_ok env RoutingWrite) (clock env)
                                sid [RoutingLabel predicted_label]),
                 outbox := outbox w @ [RoutingInfo predicted_label]\<rparr>)))"

text \<open>
  Stage 5, synthesis (main.py 567-593). \<open>TTSRequest\<close> limits \<open>text_to_speak\<close> to 500
  characters and is built outside the inner \<open>try\<close>, so a longer text raises into the
  turn's last \<open>except\<close> clause. With an empty text nothing is sent.
\<close>

definition speak :: "turn_env \<Rightarrow> string \<Rightarrow> string \<Rightarrow> session \<Rightarrow> world \<Rightarrow> flow \<times> session \<times> world" where
  "speak env sid ai_response_content s w =
     (if ai_response_content = [] then (Continue, s, w)
      else if length ai_response_content > 500
      then fail_turn env sid ''Server error processing audio.'' s w
      else case synthesize_speech (tts_result env) of
             Inl err \<Rightarrow> (Continue, s, w\<lparr>outbox := outbox w @ [AiResponse ai_response_content]\<rparr>)
           | Inr audio_base64 \<Rightarrow>
               if audio_base64 \<noteq> []
               then (Continue, s,
                     w\<lparr>outbox := outbox w @ [AiAudioResponse ai_response_content audio_base64 ''ml-IN''],
                       store := fst (update_call_data (store w) (write_ok env TouchWrite) (clock env)
                                       sid [])\<rparr>)
               else (Continue, s, w\<lparr>outbox := outbox w @ [AiResponse ai_response_content]\<rparr>))"

text \<open>Stages 2 to 5 for a transcript that is not empty (main.py 517-593).\<close>

definition respond :: "turn_env \<Rightarrow> string \<Rightarrow> string \<Rightarrow> session \<Rightarrow> world \<Rightarrow> flow \<times> session \<times> world" where
  "respond env sid user_transcript s w =
     (let (predicted_label, w1) = route_transcript env sid w;
          (system_content, confirm, s1) = determine_prompt s predicted_label;
          w2 = (if confirm
                then w1\<lparr>store := fst (update_call_data (store w1) (write_ok env ConfirmationWrite)
                                       (clock env) sid [ConfirmationGiven True])\<rparr>
                else w1);
          chat_req = \<lparr>session_id = sid, input_text = user_transcript,
                      system_prompt_override = Some system_content\<rparr>;
          (mem, chat_resp) = chat (chat_memory w2) (llama_result env) (emotion_result env) chat_req;
          w3 = w2\<lparr>chat_memory := mem, llama_requests := llama_requests w2 @ [chat_req]\<rparr>;
          ai_response_content =
            (case chat_resp of
               Inl err \<Rightarrow> ''I apologize, I encountered a problem. Could you please repeat?''
             | Inr r \<Rightarrow> response_text r)
      in speak env sid ai_response_content s1 w3)"

text \<open>
  After a 200 answer of the speech-to-text service (main.py 492-515): the transcript
  and language are written, the caller's name is captured when it was awaited, the
  transcript event is sent, and an empty transcript ends the turn.
\<close>

definition after_stt ::
  "turn_env \<Rightarrow> string \<Rightarrow> string \<Rightarrow> string option \<Rightarrow> session \<Rightarrow> world \<Rightarrow> flow \<times> session \<times> world" where
  "after_stt env sid transcript language_code s w =
     (let user_transcript = strip transcript;
          update_payload =
            [LastTranscript user_transcript] @
            (case language_code of
               None \<Rightarrow> []
             | Some l \<Rightarrow> if l \<noteq> [] then [DetectedLanguage l] else []);
          store_name = (awaiting_name s \<and> user_transcript \<noteq> [] \<and> \<not> caller_name_known s);
          update_payload1 =
            (if store_name then update_payload @ [CallerName (take 255 user_transcript)]
             else update_payload);
          s1 = (if store_name then s\<lparr>caller_name_known := True, awaiting_name := False\<rparr> else s);
          w1 = w\<lparr>store := fst (update_call_data (store w) (write_ok env TranscriptWrite) (clock env)
                                sid update_payload1),
                 outbox := outbox w @ [TranscriptEvent user_transcript]\<rparr>
      in if user_transcript = [] then (Continue, s1, w1)
         else respond env sid user_transcript s1 w1)"

text \<open>
  The body run for one binary message (main.py 463-604): the gate on \<open>handled_by\<close>,
  then speech-to-text. A failing query for the handler and a malformed body raise into
  the last \<open>except\<close> clause; a \<open>requests\<close> exception into the first.
\<close>

definition call_endpoint_turn ::
  "turn_env \<Rightarrow> string \<Rightarrow> session \<Rightarrow> world \<Rightarrow> flow \<times> session \<times> world" where
  "call_endpoint_turn env sid s w =
     (if \<not> (pool (store w) \<and> handler_query_ok env)
      then fail_turn env sid ''Server error processing audio.'' s w
      else
        (let s1 = (case map_option handled_by (rows (store w) sid) of
                     None \<Rightarrow> s
                   | Some handler_status \<Rightarrow> s\<lparr>current_handler := handler_status\<rparr>)
         in if current_handler s1 = Human then (Continue, s1, w)
            else case stt_result env of
                   SttRequestException \<Rightarrow>
                     fail_turn env sid ''STT service connection error.'' s1 w
                 | SttResponse status_code body \<Rightarrow>
                     if status_code \<noteq> 200
                     then (Continue, s1, w\<lparr>outbox := outbox w @ [SttError status_code]\<rparr>)
                     else (case body of
                             Malformed \<Rightarrow>
                               fail_turn env sid ''Server error processing audio.'' s1 w
                           | SttJson transcript language_code \<Rightarrow>
                               after_stt env sid transcript language_code s1 w)))"

subsection \<open>The connection\<close>

text \<open>
  What \<open>websocket.receive()\<close> yields: a disconnect message, a message with bytes (with
  the collaborators' answers for the turn it starts, of type \<open>'e\<close>), a message without
  bytes, a message of another type; or it raises \<open>WebSocketDisconnect\<close> or another
  exception.
\<close>

datatype 'e ws_message =
    WsDisconnect
  | WsBytes 'e
  | WsText
  | WsOther
  | ReceiveDisconnect
  | ReceiveError

text \<open>
  The \<open>while True\<close> loop (main.py 453-615) over the messages that arrive. The first
  component says whether the loop was left; when the messages run out it is still
  waiting in \<open>receive\<close>.
\<close>

fun session_loop ::
  "string \<Rightarrow> turn_env ws_message list \<Rightarrow> session \<Rightarrow> world \<Rightarrow> bool \<times> session \<times> world" where
  "session_loop sid [] s w = (False, s, w)"
| "session_loop sid (WsDisconnect # ms) s w = (True, s, w)"
| "session_loop sid (ReceiveDisconnect # ms) s w = (True, s, w)"
| "session_loop sid (ReceiveError # ms) s w =
     (True, s, w\<lparr>outbox := outbox w @ [ErrorEvent ''Internal server error.'']\<rparr>)"
| "session_loop sid (WsText # ms) s w = session_loop sid ms s w"
| "session_loop sid (WsOther # ms) s w = session_loop sid ms s w"
| "session_loop sid (WsBytes env # ms) s w =
     (case call_endpoint_turn env sid s w of
        (Break, s1, w1) \<Rightarrow> (True, s1, w1)
      | (Continue, s1, w1) \<Rightarrow> session_loop sid ms s1 w1)"

text \<open>
  What happens around the loop: whether the upsert and the query for the initial state
  succeed, the clock at connection time, and clock and outcome of the final write.
\<close>

record connect_env =
  connect_clock :: nat
  init_ok :: bool
  snapshot_ok :: bool
  close_clock :: nat
  close_write_ok :: bool

datatype handler_state = Rejected | InitFailed | Waiting | Exited

definition initial_session :: "db \<Rightarrow> string \<Rightarrow> session" where
  "initial_session d sid =
     (case rows d sid of
        None \<Rightarrow> \<lparr>confirmation_given_this_session = False, awaiting_name = False,
                  caller_name_known = False, current_handler = AI\<rparr>
      | Some initial_state \<Rightarrow>
          \<lparr>confirmation_given_this_session = confirmation_given initial_state,
           awaiting_name = False,
           caller_name_known =
             (caller_name initial_state \<noteq> [] \<and> caller_name initial_state \<noteq> ''Unknown''),
           current_handler = handled_by initial_state\<rparr>)"

text \<open>The \<open>finally\<close> clause (main.py 623-626); it is reached with the session initialised.\<close>

definition finally_block :: "connect_env \<Rightarrow> string \<Rightarrow> world \<Rightarrow> world" where
  "finally_block cenv sid w =
     w\<lparr>store := fst (update_call_data (store w) (close_write_ok cenv) (close_clock cenv) sid
                       [Status Ended])\<rparr>"

text \<open>
  \<open>call_endpoint\<close> (main.py 391-626): the connection is rejected without a pool and
  closed when the upsert fails, both before the \<open>try\<close> that owns the \<open>finally\<close> clause.
\<close>

definition call_endpoint ::
  "connect_env \<Rightarrow> string \<Rightarrow> turn_env ws_message list \<Rightarrow> world
     \<Rightarrow> handler_state \<times> world" where
  "call_endpoint cenv sid msgs w =
     (if \<not> pool (store w) then (Rejected, w)
      else if \<not> init_ok cenv then (InitFailed, w)
      else
        (let w1 = w\<lparr>store := upsert_call (store w) (connect_clock cenv) sid\<rparr>
         in if \<not> snapshot_ok cenv then (Exited, finally_block cenv sid w1)
            else case session_loop sid msgs (initial_session (store w1) sid) w1 of
                   (False, s, w2) \<Rightarrow> (Waiting, w2)
                 | (True, s, w2) \<Rightarrow> (Exited, finally_block cenv sid w2)))"

section \<open>Cleaning the text for speech (stt\_translate.py)\<close>

text \<open>
  Stage 8 of the sibling orchestrator (stt\_translate.py 361-366):
  \<open>re.sub(r'[?!]+', '', text)\<close> deletes every question and exclamation mark,
  \<open>re.sub(r'\s+', ' ', text)\<close> replaces each maximal run of white space by one blank,
  and \<open>strip()\<close> trims; an empty text is left alone.
\<close>

definition remove_marks :: "string \<Rightarrow> string" where
  "remove_marks s = filter (\<lambda>c. c \<noteq> CHR ''?'' \<and> c \<noteq> CHR ''!'') s"

function collapse_whitespace :: "string \<Rightarrow> string" where
  "collapse_whitespace [] = []"
| "collapse_whitespace (c # cs) =
     (if is_space c then CHR '' '' # collapse_whitespace (dropWhile is_space cs)
      else c # collapse_whitespace cs)"
  by pat_completeness auto
termination
  by (relation "measure length") (auto simp: less_Suc_eq_le length_dropWhile_le)

definition clean_text_for_tts :: "string \<Rightarrow> string" where
  "clean_text_for_tts text_for_tts =
     (if text_for_tts \<noteq> [] then strip (collapse_whitespace (remove_marks text_for_tts))
      else text_for_tts)"

fun squeezed :: "string \<Rightarrow> bool" where
  "squeezed [] = True"
| "squeezed (c # cs) =
     ((is_space c \<longrightarrow> c = CHR '' '' \<and> (cs = [] \<or> \<not> is_space (hd cs))) \<and> squeezed cs)"

section \<open>The orchestrator of stt\_translate.py\<close>

text \<open>
  The sibling service runs the same loop with three differences that matter here: it
  keeps the conversation in a local list \<open>chat_history\<close>, it reaches the dialogue,
  translation and synthesis services over HTTP, and it chooses the first prompt from the
  length of the history.
\<close>

definition stt_create_confirmation_system_prompt :: "string \<Rightarrow> string" where
  \<open>stt_create_confirmation_system_prompt department_name =
     ''You are an AI assistant in a real-time emergency call center in Kerala, India.\<newline>'' @
     ''A specific department has been identified for this user\'s issue: '' @
       department_name @ ''.\<newline>'' @
     ''Your primary task now is to FIRST acknowledge this and give the confirmation. State clearly: "'' @
       confirmation_phrase department_name @ ''"\<newline>'' @
     ''AFTER giving that exact confirmation, you MUST then ask the NEXT single, most important question calmly to gather necessary details (like location, number of people, current status etc.). Do not ask multiple questions.\<newline>'' @
     ''Speak calmly. Never refer them to 911 or other services. Always remain the official emergency contact.''\<close>

text \<open>
  The answer of a service called with \<open>http_client.post\<close>: the call, the status check
  or the decoding raises, or the JSON answer holds the text of the field that is read
  (the empty string when the field is absent or null).
\<close>

datatype service_reply = ServiceError | ServiceText string

record stt_turn_env =
  s_clock :: nat
  s_handler_query_ok :: bool
  s_stt_result :: stt_outcome
  s_routing_result :: routing_outcome
  s_llama_reply :: service_reply
  s_translate_reply :: service_reply
  s_tts_reply :: service_reply
  s_write_ok :: "write_site \<Rightarrow> bool"

record stt_session = session +
  chat_history :: "message list"

definition stt_fail_turn ::
  "stt_turn_env \<Rightarrow> string \<Rightarrow> string \<Rightarrow> stt_session \<Rightarrow> world
     \<Rightarrow> flow \<times> stt_session \<times> world" where
  "stt_fail_turn env sid msg s w =
     (Break, s,
      w\<lparr>outbox := outbox w @ [ErrorEvent msg],
        store := fst (update_call_data (store w) (s_write_ok env StatusWrite) (s_clock env) sid
                        [Status Error])\<rparr>)"

text \<open>Stages 3 and 4, routing (stt\_translate.py 289-306).\<close>

definition stt_route_transcript :: "stt_turn_env \<Rightarrow> string \<Rightarrow> world \<Rightarrow> string \<times> world" where
  "stt_route_transcript env sid w =
     (case s_routing_result env of
        RoutingError \<Rightarrow> (''Unknown'', w\<lparr>outbox := outbox w @ [RoutingInfo ''Unknown'']\<rparr>)
      | RoutingOk forwarded_to \<Rightarrow>
          (let predicted_label = (case forwarded_to of None \<Rightarrow> ''Unknown'' | Some l \<Rightarrow> l)
           in (predicted_label,
               w\<lparr>store := fst (update_call_data (store w) (s_write_ok env RoutingWrite)
                                (s_clock env) sid [RoutingLabel predicted_label]),
                 outbox := outbox w @ [RoutingInfo predicted_label]\<rparr>)))"

text \<open>
  Stage 5, "Determine LLaMA prompt" (stt\_translate.py 308-323): the initial prompt is
  chosen from the history, and every other turn clears \<open>awaiting_name\<close>.
\<close>

definition stt_determine_prompt ::
  "stt_session \<Rightarrow> string \<Rightarrow> string \<times> bool \<times> stt_session" where
  "stt_determine_prompt s predicted_label =
     (if chat_history s = [] \<or>
         (length (chat_history s) = 1 \<and> fst (hd (chat_history s)) = User
          \<and> \<not> caller_name_known s)
      then (INITIAL_SYSTEM_PROMPT, False, s\<lparr>awaiting_name := True\<rparr>)
      else
        (let s0 = s\<lparr>awaiting_name := False\<rparr>;
             is_specific_routing =
               (predicted_label \<noteq> [] \<and> predicted_label \<notin> NON_SPECIFIC_ROUTING_LABELS);
             should_give_confirmation =
               (is_specific_routing \<and> \<not> confirmation_given_this_session s)
         in if should_give_confirmation
            then (stt_create_confirmation_system_prompt predicted_label, True,
                  s0\<lparr>confirmation_given_this_session := True\<rparr>)
            else (STANDARD_SYSTEM_PROMPT, False, s0)))"

text \<open>Stage 6, the dialogue service (stt\_translate.py 325-342): the reply and the history.\<close>

definition stt_llama :: "stt_turn_env \<Rightarrow> message list \<Rightarrow> string \<times> message list" where
  "stt_llama env history =
     (case s_llama_reply env of
        ServiceError \<Rightarrow>
          (''I apologize, I encountered a problem. Could you please repeat?'', history)
      | ServiceText reply_text \<Rightarrow>
          (let ai_response_content = strip reply_text
           in (ai_response_content,
               if ai_response_content \<noteq> []
               then history @ [(Assistant, ai_response_content)] else history)))"

text \<open>Stage 7, translation (stt\_translate.py 344-358), with its fallbacks.\<close>

definition stt_translate_reply :: "stt_turn_env \<Rightarrow> string \<Rightarrow> string" where
  "stt_translate_reply env ai_response_content =
     (if ai_response_content \<noteq> [] then
        (case s_translate_reply env of
           ServiceError \<Rightarrow> ai_response_content
         | ServiceText translated_text \<Rightarrow>
             (if strip translated_text \<noteq> [] then strip translated_text
              else ai_response_content))
      else [])"

text \<open>
  Stages 8 to 10 (stt\_translate.py 361-395): the cleaned text goes to synthesis; the
  events carry the translated text, and an empty cleaned text gives a text-only event
  with the empty string.
\<close>

definition stt_speak :: "stt_turn_env \<Rightarrow> string \<Rightarrow> string \<Rightarrow> world \<Rightarrow> world" where
  "stt_speak env sid translated_ai_response_content w =
     (if clean_text_for_tts translated_ai_response_content \<noteq> [] then
        (case s_tts_reply env of
           ServiceError \<Rightarrow>
             w\<lparr>outbox := outbox w @ [AiResponse translated_ai_response_content]\<rparr>
         | ServiceText audio_base64 \<Rightarrow>
             if audio_base64 \<noteq> []
             then w\<lparr>outbox := outbox w @
                      [AiAudioResponse translated_ai_response_content audio_base64 ''ml-IN''],
                    store := fst (update_call_data (store w) (s_write_ok env TouchWrite)
                                    (s_clock env) sid [])\<rparr>
             else w\<lparr>outbox := outbox w @ [AiResponse translated_ai_response_content]\<rparr>)
      else w\<lparr>outbox := outbox w @ [AiResponse []]\<rparr>)"

text \<open>Stages 3 to 10 for a turn that is not skipped (stt\_translate.py 289-395).\<close>

definition stt_respond ::
  "stt_turn_env \<Rightarrow> string \<Rightarrow> string \<Rightarrow> stt_session \<Rightarrow> world \<Rightarrow> flow \<times> stt_session \<times> world" where
  "stt_respond env sid user_transcript s w =
     (let (predicted_label, w1) = stt_route_transcript env sid w;
          (system_content, confirm, s1) = stt_determine_prompt s predicted_label;
          w2 = (if confirm
                then w1\<lparr>store := fst (update_call_data (store w1)
                                       (s_write_ok env ConfirmationWrite)
                                       (s_clock env) sid [ConfirmationGiven True])\<rparr>
                else w1);
          llama_payload = \<lparr>session_id = sid, input_text = user_transcript,
                           system_prompt_override = Some system_content\<rparr>;
          (ai_response_content, history) = stt_llama env (chat_history s1);
          w3 = w2\<lparr>llama_requests := llama_requests w2 @ [llama_payload]\<rparr>
      in (Continue, s1\<lparr>chat_history := history\<rparr>,
          stt_speak env sid (stt_translate_reply env ai_response_content) w3))"

text \<open>
  After a 200 answer of the speech-to-text service (stt\_translate.py 266-287): as in
  \<open>main.py\<close>, but the transcript joins the history, and the turn ends early only
  when the transcript and the history are both empty.
\<close>

definition stt_after_stt ::
  "stt_turn_env \<Rightarrow> string \<Rightarrow> string \<Rightarrow> string option \<Rightarrow> stt_session \<Rightarrow> world
     \<Rightarrow> flow \<times> stt_session \<times> world" where
  "stt_after_stt env sid transcript language_code s w =
     (let user_transcript = strip transcript;
          update_payload =
            [LastTranscript user_transcript] @
            (case language_code of
               None \<Rightarrow> []
             | Some l \<Rightarrow> if l \<noteq> [] then [DetectedLanguage l] else []);
          store_name = (awaiting_name s \<and> user_transcript \<noteq> [] \<and> \<not> caller_name_known s);
          update_payload1 =
            (if store_name then update_payload @ [CallerName (take 255 user_transcript)]
             else update_payload);
          s1 = (if store_name then s\<lparr>caller_name_known := True, awaiting_name := False\<rparr> else s);
          w1 = w\<lparr>store := fst (update_call_data (store w) (s_write_ok env TranscriptWrite)
                                (s_clock env) sid update_payload1),
                 outbox := outbox w @ [TranscriptEvent user_transcript]\<rparr>;
          s2 = (if user_transcript \<noteq> []
                then s1\<lparr>chat_history := chat_history s1 @ [(User, user_transcript)]\<rparr>
                else s1)
      in if user_transcript = [] \<and> chat_history s2 = [] then (Continue, s2, w1)
         else stt_respond env sid user_transcript s2 w1)"

text \<open>The body run for one binary message (stt\_translate.py 238-408).\<close>

definition stt_translate_turn ::
  "stt_turn_env \<Rightarrow> string \<Rightarrow> stt_session \<Rightarrow> world \<Rightarrow> flow \<times> stt_session \<times> world" where
  "stt_translate_turn env sid s w =
     (if \<not> (pool (store w) \<and> s_handler_query_ok env)
      then stt_fail_turn env sid ''Server error processing audio.'' s w
      else
        (let s1 = (case map_option handled_by (rows (store w) sid) of
                     None \<Rightarrow> s
                   | Some handler_status \<Rightarrow> s\<lparr>current_handler := handler_status\<rparr>)
         in if current_handler s1 = Human then (Continue, s1, w)
            else case s_stt_result env of
                   SttRequestException \<Rightarrow>
                     stt_fail_turn env sid ''STT service connection error.'' s1 w
                 | SttResponse status_code body \<Rightarrow>
                     if status_code \<noteq> 200
                     then (Continue, s1, w\<lparr>outbox := outbox w @ [SttError status_code]\<rparr>)
                     else (case body of
                             Malformed \<Rightarrow>
                               stt_fail_turn env sid ''Server error processing audio.'' s1 w
                           | SttJson transcript language_code \<Rightarrow>
                               stt_after_stt env sid transcript language_code s1 w)))"

text \<open>The \<open>while True\<close> loop of the sibling (stt\_translate.py 228-422).\<close>

fun stt_session_loop ::
  "string \<Rightarrow> stt_turn_env ws_message list \<Rightarrow> stt_session \<Rightarrow> world
     \<Rightarrow> bool \<times> stt_session \<times> world" where
  "stt_session_loop sid [] s w = (False, s, w)"
| "stt_session_loop sid (WsDisconnect # ms) s w = (True, s, w)"
| "stt_session_loop sid (ReceiveDisconnect # ms) s w = (True, s, w)"
| "stt_session_loop sid (ReceiveError # ms) s w =
     (True, s, w\<lparr>outbox := outbox w @ [ErrorEvent ''Internal server error.'']\<rparr>)"
| "stt_session_loop sid (WsText # ms) s w = stt_session_loop sid ms s w"
| "stt_session_loop sid (WsOther # ms) s w = stt_session_loop sid ms s w"
| "stt_session_loop sid (WsBytes env # ms) s w =
     (case stt_translate_turn env sid s w of
        (Break, s1, w1) \<Rightarrow> (True, s1, w1)
      | (Continue, s1, w1) \<Rightarrow> stt_session_loop sid ms s1 w1)"

text \<open>The session variables at the start of the loop, after the upsert.\<close>

definition stt_initial_session :: "db \<Rightarrow> string \<Rightarrow> stt_session" where
  "stt_initial_session d sid =
     session.extend (initial_session d sid) \<lparr>chat_history = []\<rparr>"

section \<open>Auxiliary notions and example inputs\<close>

text \<open>Which column assignments touch \<open>handled_by\<close>.\<close>

fun writes_handler :: "field_update \<Rightarrow> bool" where
  "writes_handler (HandledBy h) = True"
| "writes_handler f = False"

text \<open>
  A store in which an operator has taken over session \<open>S1\<close>, a connection whose
  store operations all succeed, and a turn in which every collaborator answers.
\<close>

definition human_db :: db where
  "human_db = \<lparr>pool = True, rows = [''S1'' \<mapsto> (fresh_row 10)\<lparr>handled_by := Human\<rparr>]\<rparr>"

definition human_world :: world where
  "human_world = \<lparr>store = human_db, chat_memory = Map.empty, outbox = [], llama_requests = []\<rparr>"

definition example_cenv :: connect_env where
  "example_cenv = \<lparr>connect_clock = 30, init_ok = True, snapshot_ok = True,
                    close_clock = 40, close_write_ok = True\<rparr>"

definition example_env :: turn_env where
  "example_env =
     \<lparr>clock = 31, handler_query_ok = True,
      stt_result = SttResponse 200 (SttJson ''help'' None),
      routing_result = RoutingOk (Some ''Fire Department''),
      llama_result = Completion ''Could I please get your name?'',
      emotion_result = Completion ''urgent'',
      tts_result = TtsAudios [''QUJD''],
      write_ok = (\<lambda>site. True)\<rparr>"

text \<open>An empty store, and a turn in which the speech-to-text request raises.\<close>

definition fresh_world :: world where
  "fresh_world =
     \<lparr>store = \<lparr>pool = True, rows = Map.empty\<rparr>, chat_memory = Map.empty, outbox = [],
      llama_requests = []\<rparr>"

definition stt_down_env :: turn_env where
  "stt_down_env = example_env\<lparr>stt_result := SttRequestException\<rparr>"

text \<open>Which column assignments touch \<open>confirmation_given\<close>.\<close>

fun writes_confirmation :: "field_update \<Rightarrow> bool" where
  "writes_confirmation (ConfirmationGiven b) = True"
| "writes_confirmation f = False"

text \<open>
  A session whose caller has given a name, the world around \<open>example_db\<close>, and a
  turn in which the dialogue model answers with white space only.
\<close>

definition named_session :: session where
  "named_session =
     \<lparr>confirmation_given_this_session = False, awaiting_name = False,
      caller_name_known = True, current_handler = AI\<rparr>"

definition example_world :: world where
  "example_world =
     \<lparr>store = example_db, chat_memory = Map.empty, outbox = [], llama_requests = []\<rparr>"

definition silent_env :: turn_env where
  "silent_env = example_env\<lparr>llama_result := Completion ''  ''\<rparr>"

text \<open>The events the synthesis stage of \<open>main.py\<close> adds, as a function of the text.\<close>

definition speak_events :: "turn_env \<Rightarrow> string \<Rightarrow> event list" where
  "speak_events env txt =
     (if txt = [] then []
      else if length txt > 500 then [ErrorEvent ''Server error processing audio.'']
      else case synthesize_speech (tts_result env) of
             Inl err \<Rightarrow> [AiResponse txt]
           | Inr audio \<Rightarrow>
               if audio \<noteq> [] then [AiAudioResponse txt audio ''ml-IN''] else [AiResponse txt])"

text \<open>
  A world in which session \<open>S1\<close> has a conversation history, a turn of \<open>main.py\<close>
  with a silent transcript, and three turns of \<open>stt_translate.py\<close>: a greeting, a
  silence, and a report routed to the fire department.
\<close>

definition history_world :: world where
  "history_world =
     example_world\<lparr>chat_memory :=
       [''S1'' \<mapsto> [(User, ''hello''), (Assistant, ''Could I please get your name?'')]]\<rparr>"

definition silence_env :: turn_env where
  "silence_env = example_env\<lparr>stt_result := SttResponse 200 (SttJson ''  '' None)\<rparr>"

definition stt_env1 :: stt_turn_env where
  "stt_env1 =
     \<lparr>s_clock = 31, s_handler_query_ok = True,
      s_stt_result = SttResponse 200 (SttJson ''hello'' None),
      s_routing_result = RoutingOk (Some ''Unknown''),
      s_llama_reply = ServiceText ''Could I please get your name?'',
      s_translate_reply = ServiceError,
      s_tts_reply = ServiceText ''QUJD'',
      s_write_ok = (\<lambda>site. True)\<rparr>"

definition stt_env2 :: stt_turn_env where
  "stt_env2 = stt_env1\<lparr>s_stt_result := SttResponse 200 (SttJson [] None)\<rparr>"

definition stt_env3 :: stt_turn_env where
  "stt_env3 = stt_env1\<lparr>s_stt_result := SttResponse 200 (SttJson ''fire'' None),
                        s_routing_result := RoutingOk (Some ''Fire Department'')\<rparr>"

definition stt_history_session :: stt_session where
  "stt_history_session =
     (stt_initial_session example_db ''S1'')
       \<lparr>chat_history := [(User, ''hello''), (Assistant, ''Could I please get your name?'')]\<rparr>"

text \<open>The store of \<open>example_db\<close> with the start-up connection failed.\<close>

definition down_db :: db where
  "down_db = example_db\<lparr>pool := False\<rparr>"

text \<open>
  A turn in which the write of \<open>confirmation_given\<close> fails, and the world after a
  turn that gave and stored the confirmation.
\<close>

definition unwritten_env :: turn_env where
  "unwritten_env = example_env\<lparr>write_ok := (\<lambda>site. site \<noteq> ConfirmationWrite)\<rparr>"

definition confirmed_world :: world where
  "confirmed_world =
     snd (snd (respond example_env ''S1'' ''fire in the kitchen'' named_session example_world))"

section \<open>Properties of the store adapter\<close>

lemma update_call_data_stamps:
  assumes "pool d" "upd \<noteq> []" "rows d sid = Some r"
  shows "map_option last_update_time (rows (fst (update_call_data d True now sid upd)) sid)
           = Some now"
  using assms by (simp add: update_call_data_def execute_update_def)

lemma update_call_data_failure_unchanged:
  "\<not> pool d \<or> \<not> exec_ok \<Longrightarrow> fst (update_call_data d exec_ok now sid upd) = d"
  by (auto simp: update_call_data_def)

lemma update_call_data_failure_logged:
  "\<not> pool d \<Longrightarrow> snd (update_call_data d exec_ok now sid upd) = [PoolUnavailable sid]"
  "pool d \<Longrightarrow> upd \<noteq> [] \<Longrightarrow> \<not> exec_ok \<Longrightarrow>
     snd (update_call_data d exec_ok now sid upd) = [UpdateFailed sid]"
  by (auto simp: update_call_data_def)

lemma update_call_data_pool: "pool (fst (update_call_data d ok now sid upd)) = pool d"
  by (auto simp: update_call_data_def execute_update_def split: option.splits)

text \<open>
  C5. The helper's guard \<open>if not db_pool or not data_to_update: return\<close> returns before
  the stamp when the field set is empty: with the store available, the liveness touch
  \<open>update_call_data(session_id, {})\<close> leaves the store as it was, the row's
  \<open>last_update_time\<close> included, and logs nothing.
\<close>

theorem update_call_data_empty_touch_no_stamp:
  "pool d \<Longrightarrow> update_call_data d exec_ok now sid [] = (d, [])"
  by (simp add: update_call_data_def)

theorem update_call_data_empty_touch_no_stamp_witness:
  "pool example_db \<and>
   update_call_data example_db True 99 ''S1'' [] = (example_db, []) \<and>
   map_option last_update_time (rows (fst (update_call_data example_db True 99 ''S1'' [])) ''S1'')
     = Some 10"
proof -
  have p: "pool example_db" by (simp add: example_db_def)
  have "map_option last_update_time (rows example_db ''S1'') = Some 10"
    by (simp add: example_db_def fresh_row_def)
  with p update_call_data_empty_touch_no_stamp [OF p, of True 99 "''S1''"]
  show ?thesis by simp
qed

text \<open>
  C8, as stated, fails when the store fails. For the Active session \<open>S1\<close>, a takeover
  whose update raises still answers 200, because \<open>update_call_data\<close> swallows the
  exception, and \<open>handled_by\<close> stays AI. For an unknown session the answer is 503 when
  there is no pool and 500 when the status query raises, not 404.
\<close>

theorem takeover_store_failures_counterexample:
  "map_option status (rows example_db ''S1'') = Some Active
   \<and> takeover_call_endpoint example_db True False 20 ''S1'' = Inr example_db
   \<and> map_option handled_by (rows example_db ''S1'') = Some AI
   \<and> rows down_db ''S9'' = None
   \<and> takeover_call_endpoint down_db True True 20 ''S9'' = Inl (HTTPException 503)
   \<and> rows example_db ''S9'' = None
   \<and> takeover_call_endpoint example_db False True 20 ''S9'' = Inl (HTTPException 500)"
  by (simp add: takeover_call_endpoint_def update_call_data_def example_db_def down_db_def
        fresh_row_def)

text \<open>
  C8, amended. Without a pool the takeover endpoint answers 503, and 500 when the status
  query raises. Otherwise it answers 404 for an unknown session and 400 for a session
  whose status is not Active. For an Active session it answers 200 and issues the write
  of \<open>handled_by = Human\<close>: the row holds Human when the write succeeds, and the store
  is unchanged when it fails; the status stays Active and a row that was Human stays
  Human. A second call on the session succeeds again, and the row holds Human when
  either write succeeded.
\<close>

theorem takeover_call_endpoint_contract:
  "(\<not> pool d \<longrightarrow> takeover_call_endpoint d fetch_ok exec_ok now sid = Inl (HTTPException 503))
   \<and> (pool d \<and> \<not> fetch_ok \<longrightarrow>
        takeover_call_endpoint d fetch_ok exec_ok now sid = Inl (HTTPException 500))
   \<and> (pool d \<and> fetch_ok \<and> rows d sid = None \<longrightarrow>
        takeover_call_endpoint d fetch_ok exec_ok now sid = Inl (HTTPException 404))
   \<and> (\<forall>r. pool d \<and> fetch_ok \<and> rows d sid = Some r \<and> status r \<noteq> Active \<longrightarrow>
        takeover_call_endpoint d fetch_ok exec_ok now sid = Inl (HTTPException 400))
   \<and> (\<forall>r. pool d \<and> fetch_ok \<and> rows d sid = Some r \<and> status r = Active \<longrightarrow>
        (\<exists>d' r'. takeover_call_endpoint d fetch_ok exec_ok now sid = Inr d'
           \<and> pool d' \<and> rows d' sid = Some r' \<and> status r' = Active
           \<and> (exec_ok \<longrightarrow> handled_by r' = Human)
           \<and> (\<not> exec_ok \<longrightarrow> d' = d)
           \<and> (handled_by r = Human \<longrightarrow> handled_by r' = Human)
           \<and> (\<forall>exec_ok' now'.
                 \<exists>d'' r''. takeover_call_endpoint d' fetch_ok exec_ok' now' sid = Inr d''
                   \<and> rows d'' sid = Some r'' \<and> status r'' = Active
                   \<and> (exec_ok \<or> exec_ok' \<longrightarrow> handled_by r'' = Human))))"
  by (auto simp: takeover_call_endpoint_def update_call_data_def execute_update_def)

theorem takeover_call_endpoint_contract_witness:
  "takeover_call_endpoint example_db True True 20 ''S9'' = Inl (HTTPException 404)
   \<and> (\<exists>d' r'. takeover_call_endpoint example_db True True 20 ''S1'' = Inr d'
         \<and> rows d' ''S1'' = Some r' \<and> handled_by r' = Human \<and> status r' = Active
         \<and> (\<exists>d'' r''. takeover_call_endpoint d' True True 21 ''S1'' = Inr d''
               \<and> rows d'' ''S1'' = Some r'' \<and> handled_by r'' = Human
               \<and> status r'' = Active))"
proof -
  have p: "pool example_db" by (simp add: example_db_def)
  have n: "rows example_db ''S9'' = None" by (simp add: example_db_def)
  have a: "rows example_db ''S1'' = Some (fresh_row 10) \<and> status (fresh_row 10) = Active"
    by (simp add: example_db_def fresh_row_def)
  from takeover_call_endpoint_contract [of example_db True True 20 "''S9''"] p n
  have "takeover_call_endpoint example_db True True 20 ''S9'' = Inl (HTTPException 404)"
    by simp
  moreover from takeover_call_endpoint_contract [of example_db True True 20 "''S1''"] p a
  have "\<exists>d' r'. takeover_call_endpoint example_db True True 20 ''S1'' = Inr d'
         \<and> rows d' ''S1'' = Some r' \<and> handled_by r' = Human \<and> status r' = Active
         \<and> (\<exists>d'' r''. takeover_call_endpoint d' True True 21 ''S1'' = Inr d''
               \<and> rows d'' ''S1'' = Some r'' \<and> handled_by r'' = Human
               \<and> status r'' = Active)"
    by (metis (full_types))
  ultimately show ?thesis by simp
qed

section \<open>The emotion label of the chat endpoint\<close>

definition example_request :: chat_request where
  "example_request =
     \<lparr>session_id = ''S1'', input_text = ''help me'', system_prompt_override = None\<rparr>"

lemma detect_emotion_range:
  "detect_emotion c \<in> set valid_emotions \<union> {''unknown'', ''error''}"
  by (cases c) (auto simp: detect_emotion_def Let_def)

lemma strip_help_me: "strip ''help me'' = ''help me''"
  by (simp add: strip_def is_space_def)

lemma lower_scared: "lower (strip '' Scared '') = ''scared''"
  by code_simp

lemma strip_where: "strip ''Where are you?'' = ''Where are you?''"
  by (simp add: strip_def is_space_def)

text \<open>
  C10. When the dialogue model fails, \<open>chat\<close> raises status 500 whatever the emotion
  call does. When it answers, \<open>chat\<close> returns the stripped answer, and the \<open>emotion\<close>
  is \<open>"unknown"\<close> for an empty input (the emotion call is not made), \<open>"error"\<close> when
  the emotion call raises, the stripped and lower-cased answer of the emotion call when
  that is one of the ten labels, and \<open>"unknown"\<close> for any other answer. So the emotion of
  every response is one of the ten labels, \<open>"unknown"\<close> or \<open>"error"\<close>, and whether
  \<open>chat\<close> fails never depends on the outcome of the emotion call.
\<close>

theorem chat_emotion_contract:
  "(llama = ApiFailure \<longrightarrow> snd (chat mem llama emo req) = Inl (HTTPException 500))
   \<and> (\<forall>content. llama = Completion content \<longrightarrow>
         snd (chat mem llama emo req)
           = Inr \<lparr>response_text = strip content,
                  emotion =
                    (if strip (input_text req) = [] then ''unknown''
                     else case emo of
                            ApiFailure \<Rightarrow> ''error''
                          | Completion answer \<Rightarrow>
                              if lower (strip answer) \<in> set valid_emotions
                              then lower (strip answer) else ''unknown'')\<rparr>)
   \<and> (\<forall>mem' resp. chat mem llama emo req = (mem', Inr resp) \<longrightarrow>
      emotion resp \<in> set valid_emotions \<union> {''unknown'', ''error''})
   \<and> (\<forall>content. \<exists>mem' resp. chat mem (Completion content) ApiFailure req = (mem', Inr resp)
         \<and> response_text resp = strip content
         \<and> emotion resp = (if strip (input_text req) \<noteq> [] then ''error'' else ''unknown''))
   \<and> (\<forall>emo'. isl (snd (chat mem llama emo req)) = isl (snd (chat mem llama emo' req)))"
proof (intro conjI allI impI)
  assume "llama = ApiFailure"
  then show "snd (chat mem llama emo req) = Inl (HTTPException 500)"
    by (simp add: chat_def Let_def)
next
  fix content
  assume "llama = Completion content"
  then show "snd (chat mem llama emo req)
           = Inr \<lparr>response_text = strip content,
                  emotion =
                    (if strip (input_text req) = [] then ''unknown''
                     else case emo of
                            ApiFailure \<Rightarrow> ''error''
                          | Completion answer \<Rightarrow>
                              if lower (strip answer) \<in> set valid_emotions
                              then lower (strip answer) else ''unknown'')\<rparr>"
    by (simp add: chat_def Let_def detect_emotion_def split: completion.splits)
next
  fix mem' resp
  assume "chat mem llama emo req = (mem', Inr resp)"
  then have "emotion resp = detect_emotion emo \<or> emotion resp = ''unknown''"
    by (auto simp: chat_def Let_def split: completion.splits if_splits)
  with detect_emotion_range [of emo]
  show "emotion resp \<in> set valid_emotions \<union> {''unknown'', ''error''}" by auto
next
  fix content
  show "\<exists>mem' resp. chat mem (Completion content) ApiFailure req = (mem', Inr resp)
         \<and> response_text resp = strip content
         \<and> emotion resp = (if strip (input_text req) \<noteq> [] then ''error'' else ''unknown'')"
    by (simp add: chat_def Let_def detect_emotion_def)
next
  fix emo'
  show "isl (snd (chat mem llama emo req)) = isl (snd (chat mem llama emo' req))"
    by (simp add: chat_def Let_def split: completion.splits)
qed

theorem chat_emotion_contract_witness:
  "snd (chat Map.empty (Completion ''Where are you?'') (Completion '' Scared '') example_request)
     = Inr \<lparr>response_text = ''Where are you?'', emotion = ''scared''\<rparr>
   \<and> snd (chat Map.empty (Completion ''Where are you?'') (Completion ''I am not sure'')
           example_request)
     = Inr \<lparr>response_text = ''Where are you?'', emotion = ''unknown''\<rparr>
   \<and> snd (chat Map.empty (Completion ''Where are you?'') ApiFailure example_request)
     = Inr \<lparr>response_text = ''Where are you?'', emotion = ''error''\<rparr>
   \<and> snd (chat Map.empty (Completion ''Where are you?'') (Completion ''calm'')
           (example_request\<lparr>input_text := ''  ''\<rparr>))
     = Inr \<lparr>response_text = ''Where are you?'', emotion = ''unknown''\<rparr>"
proof -
  have i: "strip (input_text example_request) \<noteq> []"
    by (simp add: example_request_def strip_help_me)
  have e: "strip (input_text (example_request\<lparr>input_text := ''  ''\<rparr>)) = []"
    by (simp add: strip_def is_space_def)
  have s: "lower (strip '' Scared '') \<in> set valid_emotions"
    by (simp add: lower_scared valid_emotions_def)
  have u: "lower (strip ''I am not sure'') \<notin> set valid_emotions"
    by code_simp
  note c = chat_emotion_contract [THEN conjunct2, THEN conjunct1, rule_format, OF refl]
  show ?thesis
    using c [of Map.empty "''Where are you?''" "Completion '' Scared ''" example_request]
      c [of Map.empty "''Where are you?''" "Completion ''I am not sure''" example_request]
      c [of Map.empty "''Where are you?''" ApiFailure example_request]
      c [of Map.empty "''Where are you?''" "Completion ''calm''"
            "example_request\<lparr>input_text := ''  ''\<rparr>"]
      i e s u
    by (simp add: strip_where lower_scared)
qed

section \<open>Who writes \<open>handled_by\<close>\<close>

lemma apply_field_handled_by:
  "\<not> writes_handler f \<Longrightarrow> handled_by (apply_field f r) = handled_by r"
  by (cases f) simp_all

lemma fold_apply_field_handled_by:
  "\<forall>f \<in> set upd. \<not> writes_handler f \<Longrightarrow> handled_by (fold apply_field upd r) = handled_by r"
  by (induction upd arbitrary: r) (simp_all add: apply_field_handled_by)

lemma update_call_data_handled_by:
  assumes "\<forall>f \<in> set upd. \<not> writes_handler f"
  shows "map_option handled_by (rows (fst (update_call_data d ok now sid upd)) sid')
           = map_option handled_by (rows d sid')"
  using assms
  by (auto simp: update_call_data_def execute_update_def fold_apply_field_handled_by
           split: option.splits)

lemma fail_turn_handled_by:
  "map_option handled_by (rows (store (snd (snd (fail_turn env sid msg s w)))) sid')
     = map_option handled_by (rows (store w) sid')"
  by (simp add: fail_turn_def update_call_data_handled_by)

lemma route_transcript_handled_by:
  "map_option handled_by (rows (store (snd (route_transcript env sid w))) sid')
     = map_option handled_by (rows (store w) sid')"
  by (simp add: route_transcript_def Let_def update_call_data_handled_by
           split: routing_outcome.splits)

lemma speak_handled_by:
  "map_option handled_by (rows (store (snd (snd (speak env sid txt s w)))) sid')
     = map_option handled_by (rows (store w) sid')"
  by (simp add: speak_def fail_turn_handled_by update_call_data_handled_by
           split: sum.splits)

lemma respond_handled_by:
  "map_option handled_by (rows (store (snd (snd (respond env sid t s w)))) sid')
     = map_option handled_by (rows (store w) sid')"
  by (simp add: respond_def Let_def speak_handled_by route_transcript_handled_by
        update_call_data_handled_by split: prod.splits)
     (metis route_transcript_handled_by snd_conv)

lemma after_stt_handled_by:
  "map_option handled_by (rows (store (snd (snd (after_stt env sid t l s w)))) sid')
     = map_option handled_by (rows (store w) sid')"
  by (simp add: after_stt_def Let_def respond_handled_by update_call_data_handled_by
           split: option.splits)

lemma call_endpoint_turn_handled_by:
  "map_option handled_by (rows (store (snd (snd (call_endpoint_turn env sid s w)))) sid')
     = map_option handled_by (rows (store w) sid')"
  by (simp add: call_endpoint_turn_def Let_def fail_turn_handled_by after_stt_handled_by
           split: stt_outcome.splits stt_body.splits option.splits)


lemma session_loop_handled_by:
  "map_option handled_by (rows (store (snd (snd (session_loop sid ms s w)))) sid')
     = map_option handled_by (rows (store w) sid')"
proof (induction sid ms s w rule: session_loop.induct)
  case (7 sid env ms s w)
  show ?case
  proof (cases "call_endpoint_turn env sid s w")
    case (fields fl s1 w1)
    have h: "map_option handled_by (rows (store w1) sid')
               = map_option handled_by (rows (store w) sid')"
      using call_endpoint_turn_handled_by [of env sid s w sid'] fields by simp
    show ?thesis
    proof (cases fl)
      case Continue
      with fields 7 h show ?thesis by simp
    next
      case Break
      with fields h show ?thesis by simp
    qed
  qed
qed simp_all

lemma strip_help: "strip ''help'' = ''help''"
  by (simp add: strip_def is_space_def)

lemma strip_name: "strip ''Could I please get your name?'' = ''Could I please get your name?''"
  by (simp add: strip_def is_space_def)

text \<open>
  C2, as stated, fails: a session that an operator took over (\<open>handled_by = Human\<close>)
  and that connects again is reset to \<open>handled_by = AI\<close> by the upsert of
  \<open>call_endpoint\<close>, and its first audio message is answered by the pipeline again.
\<close>

theorem reconnect_resets_handler_counterexample:
  "map_option handled_by (rows (store human_world) ''S1'') = Some Human \<and>
   map_option handled_by
     (rows (store (snd (call_endpoint example_cenv ''S1'' [WsBytes example_env] human_world))) ''S1'')
     = Some AI \<and>
   outbox (snd (call_endpoint example_cenv ''S1'' [WsBytes example_env] human_world))
     = [TranscriptEvent ''help'', RoutingInfo ''Fire Department'',
        AiAudioResponse ''Could I please get your name?'' ''QUJD'' ''ml-IN'']"
  by (simp add: human_world_def human_db_def example_cenv_def example_env_def
        call_endpoint_def upsert_call_def reset_row_def fresh_row_def initial_session_def
        call_endpoint_turn_def after_stt_def respond_def route_transcript_def
        determine_prompt_def speak_def synthesize_speech_def chat_def update_call_data_def
        execute_update_def Let_def strip_help strip_name)

text \<open>
  C2, amended. Within a connection nothing the loop does writes \<open>handled_by\<close>: a
  turn, and the whole loop over any messages, leave the column of every session as it
  was; when the row says Human (and the store answers the query), the turn sends
  nothing and changes nothing but the local copy of the handler. The upsert on
  connecting is what sets \<open>handled_by\<close> to AI, for a new and for an existing row.
\<close>

theorem handled_by_written_only_on_connect:
  "(\<forall>sid'. map_option handled_by (rows (store (snd (snd (call_endpoint_turn env sid s w)))) sid')
             = map_option handled_by (rows (store w) sid'))
   \<and> (\<forall>sid'. map_option handled_by (rows (store (snd (snd (session_loop sid ms s w)))) sid')
             = map_option handled_by (rows (store w) sid'))
   \<and> (pool (store w) \<and> handler_query_ok env
        \<and> map_option handled_by (rows (store w) sid) = Some Human
      \<longrightarrow> call_endpoint_turn env sid s w = (Continue, s\<lparr>current_handler := Human\<rparr>, w))
   \<and> map_option handled_by (rows (upsert_call d now sid) sid) = Some AI"
proof (intro conjI allI impI)
  show "map_option handled_by (rows (upsert_call d now sid) sid) = Some AI"
    by (simp add: upsert_call_def fresh_row_def reset_row_def split: option.splits)
next
  assume "pool (store w) \<and> handler_query_ok env
          \<and> map_option handled_by (rows (store w) sid) = Some Human"
  then show "call_endpoint_turn env sid s w = (Continue, s\<lparr>current_handler := Human\<rparr>, w)"
    by (auto simp: call_endpoint_turn_def)
qed (simp_all add: call_endpoint_turn_handled_by session_loop_handled_by)

theorem handled_by_written_only_on_connect_witness:
  "call_endpoint_turn example_env ''S1'' (initial_session human_db ''S1'') human_world
     = (Continue, (initial_session human_db ''S1'')\<lparr>current_handler := Human\<rparr>, human_world)
   \<and> map_option handled_by (rows (upsert_call human_db 30 ''S1'') ''S1'') = Some AI"
proof -
  have "pool (store human_world) \<and> handler_query_ok example_env
        \<and> map_option handled_by (rows (store human_world) ''S1'') = Some Human"
    by (simp add: human_world_def human_db_def example_env_def)
  with handled_by_written_only_on_connect
         [of example_env "''S1''" "initial_session human_db ''S1''" human_world "[]" human_db 30]
  show ?thesis by blast
qed

section \<open>The status after an unrecoverable turn\<close>

text \<open>
  C1. When the speech-to-text request raises in the first audio message of a
  connection, the handler sends the error event, writes \<open>status = Error\<close> and leaves
  the loop; the \<open>finally\<close> clause then writes \<open>status = Ended\<close> over it. With the
  store working, the status left behind after the handler has exited is Ended, not
  Error.
\<close>

theorem call_endpoint_error_status_overwritten:
  assumes "pool (store w)" "init_ok cenv" "snapshot_ok cenv" "close_write_ok cenv"
    and "handler_query_ok env" "stt_result env = SttRequestException"
  shows "\<exists>w'. call_endpoint cenv sid (WsBytes env # ms) w = (Exited, w')
           \<and> outbox w' = outbox w @ [ErrorEvent ''STT service connection error.'']
           \<and> map_option status (rows (store w') sid) = Some Ended"
  using assms
  by (simp add: call_endpoint_def Let_def call_endpoint_turn_def initial_session_def
        upsert_call_def fresh_row_def reset_row_def fail_turn_def finally_block_def
        update_call_data_def execute_update_def split: option.splits)

theorem call_endpoint_error_status_overwritten_witness:
  "\<exists>w'. call_endpoint example_cenv ''S1'' [WsBytes stt_down_env] fresh_world = (Exited, w')
      \<and> outbox w' = [ErrorEvent ''STT service connection error.'']
      \<and> map_option status (rows (store w') ''S1'') = Some Ended"
proof -
  have "pool (store fresh_world)" "init_ok example_cenv" "snapshot_ok example_cenv"
       "close_write_ok example_cenv" "handler_query_ok stt_down_env"
       "stt_result stt_down_env = SttRequestException"
    by (simp_all add: fresh_world_def example_cenv_def stt_down_env_def example_env_def)
  from call_endpoint_error_status_overwritten [OF this, of "''S1''" "[]"]
  show ?thesis by (simp add: fresh_world_def)
qed


section \<open>The confirmation phase\<close>

lemma apply_field_confirmation:
  "\<not> writes_confirmation f \<Longrightarrow> confirmation_given (apply_field f r) = confirmation_given r"
  by (cases f) simp_all

lemma fold_apply_field_confirmation:
  "\<forall>f \<in> set upd. \<not> writes_confirmation f \<Longrightarrow>
     confirmation_given (fold apply_field upd r) = confirmation_given r"
  by (induction upd arbitrary: r) (simp_all add: apply_field_confirmation)

lemma update_call_data_confirmation:
  assumes "\<forall>f \<in> set upd. \<not> writes_confirmation f"
  shows "map_option confirmation_given (rows (fst (update_call_data d ok now sid upd)) sid')
           = map_option confirmation_given (rows d sid')"
  using assms
  by (auto simp: update_call_data_def execute_update_def fold_apply_field_confirmation
           split: option.splits)

lemma speak_confirmation:
  "map_option confirmation_given (rows (store (snd (snd (speak env sid txt s w)))) sid')
     = map_option confirmation_given (rows (store w) sid')"
  by (simp add: speak_def fail_turn_def update_call_data_confirmation split: sum.splits)

lemma speak_session: "fst (snd (speak env sid txt s w)) = s"
  by (simp add: speak_def fail_turn_def split: sum.splits)

lemma speak_requests: "llama_requests (snd (snd (speak env sid txt s w))) = llama_requests w"
  by (simp add: speak_def fail_turn_def split: sum.splits)

lemma confirmation_prompt_contains_phrase:
  "\<exists>pre post. create_confirmation_system_prompt label
      = pre @ ''I am recording the details for the '' @ label @ post"
proof -
  have "confirmation_phrase label
          = ''Understood. '' @ ''I am recording the details for the '' @ label @
            ''. Please be assured that someone from that department will contact you shortly.''"
    by (simp add: confirmation_phrase_def)
  then show ?thesis
    unfolding create_confirmation_system_prompt_def
    by (metis append.assoc)
qed

lemma determine_prompt_confirmation:
  assumes "caller_name_known s" "\<not> confirmation_given_this_session s"
    and "label \<noteq> []" "label \<notin> NON_SPECIFIC_ROUTING_LABELS"
  shows "determine_prompt s label
           = (create_confirmation_system_prompt label, True,
              s\<lparr>confirmation_given_this_session := True\<rparr>)"
  using assms by (simp add: determine_prompt_def)

lemma determine_prompt_standard:
  assumes "caller_name_known s" "confirmation_given_this_session s"
  shows "determine_prompt s label = (STANDARD_SYSTEM_PROMPT, False, s)"
  using assms by (simp add: determine_prompt_def)

lemma determine_prompt_flags:
  "caller_name_known s \<Longrightarrow> caller_name_known (snd (snd (determine_prompt s l)))"
  "confirmation_given_this_session s \<Longrightarrow>
     confirmation_given_this_session (snd (snd (determine_prompt s l)))"
  by (simp_all add: determine_prompt_def Let_def)

lemma respond_session:
  "fst (snd (respond env sid t s w))
     = snd (snd (determine_prompt s (fst (route_transcript env sid w))))"
  by (simp add: respond_def Let_def speak_session split: prod.splits)

lemma call_endpoint_turn_flags:
  "caller_name_known s \<and> confirmation_given_this_session s \<Longrightarrow>
     caller_name_known (fst (snd (call_endpoint_turn env sid s w)))
     \<and> confirmation_given_this_session (fst (snd (call_endpoint_turn env sid s w)))"
  by (auto simp: call_endpoint_turn_def after_stt_def fail_turn_def Let_def respond_session
        determine_prompt_flags split: stt_outcome.splits stt_body.splits option.splits)

lemma session_loop_flags:
  "caller_name_known s \<and> confirmation_given_this_session s \<Longrightarrow>
     caller_name_known (fst (snd (session_loop sid ms s w)))
     \<and> confirmation_given_this_session (fst (snd (session_loop sid ms s w)))"
proof (induction sid ms s w rule: session_loop.induct)
  case (7 sid env ms s w)
  show ?case
  proof (cases "call_endpoint_turn env sid s w")
    case (fields fl s1 w1)
    have h: "caller_name_known s1 \<and> confirmation_given_this_session s1"
      using call_endpoint_turn_flags [OF 7(2), of env sid w] fields by simp
    show ?thesis
    proof (cases fl)
      case Continue
      with fields 7(1) h show ?thesis by simp
    next
      case Break
      with fields h show ?thesis by simp
    qed
  qed
qed simp_all

lemma respond_unfold:
  "respond env sid t s w =
     (let rt = route_transcript env sid w;
          dp = determine_prompt s (fst rt);
          w2 = (if fst (snd dp)
                then (snd rt)\<lparr>store := fst (update_call_data (store (snd rt))
                                       (write_ok env ConfirmationWrite)
                                       (clock env) sid [ConfirmationGiven True])\<rparr>
                else snd rt);
          chat_req = \<lparr>session_id = sid, input_text = t,
                      system_prompt_override = Some (fst dp)\<rparr>;
          ch = chat (chat_memory w2) (llama_result env) (emotion_result env) chat_req;
          w3 = w2\<lparr>chat_memory := fst ch, llama_requests := llama_requests w2 @ [chat_req]\<rparr>
      in speak env sid
           (case snd ch of
              Inl err \<Rightarrow> ''I apologize, I encountered a problem. Could you please repeat?''
            | Inr r \<Rightarrow> response_text r)
           (snd (snd dp)) w3)"
  by (simp add: respond_def Let_def split: prod.splits)

lemma update_call_data_rows_None:
  "(rows (fst (update_call_data d ok now sid upd)) sid' = None) = (rows d sid' = None)"
  by (auto simp: update_call_data_def execute_update_def split: option.splits)

lemma update_call_data_sets_confirmation:
  "pool d \<Longrightarrow> rows d sid \<noteq> None \<Longrightarrow>
     map_option confirmation_given
       (rows (fst (update_call_data d True now sid [ConfirmationGiven True])) sid) = Some True"
  by (auto simp: update_call_data_def execute_update_def)

lemma strip_kitchen: "strip ''fire in the kitchen'' = ''fire in the kitchen''"
  by (simp add: strip_def is_space_def)

lemma confirmed_world_eq:
  "confirmed_world =
     \<lparr>store = \<lparr>pool = True,
                rows = [''S1'' \<mapsto> (fresh_row 10)\<lparr>routing_label := ''Fire Department'',
                                                  last_update_time := 31,
                                                  confirmation_given := True\<rparr>]\<rparr>,
      chat_memory = [''S1'' \<mapsto> [(User, ''fire in the kitchen''),
                                  (Assistant, ''Could I please get your name?'')]],
      outbox = [RoutingInfo ''Fire Department'',
                AiAudioResponse ''Could I please get your name?'' ''QUJD'' ''ml-IN''],
      llama_requests =
        [\<lparr>session_id = ''S1'', input_text = ''fire in the kitchen'',
          system_prompt_override = Some (create_confirmation_system_prompt ''Fire Department'')\<rparr>]\<rparr>"
  by (simp add: confirmed_world_def respond_def route_transcript_def determine_prompt_def
        speak_def synthesize_speech_def chat_def update_call_data_def execute_update_def
        example_env_def named_session_def example_world_def example_db_def fresh_row_def
        NON_SPECIFIC_ROUTING_LABELS_def Let_def strip_kitchen strip_name)

text \<open>
  C4, as stated, fails in three ways. A label outside the generic set that is the empty
  string resolves to the standard prompt, since
  \<open>is_specific_routing = predicted_label and ...\<close> is false for it. When the write of
  \<open>confirmation_given\<close> fails, \<open>update_call_data\<close> swallows the failure: the session
  variable is set and the row still holds false. And after the confirmation was given and
  stored, the same session connecting again is reset by the upsert: its next turns with
  the same label get the ask-for-name prompt and then the confirmation prompt a second
  time.
\<close>

theorem confirmation_claim_counterexample:
  "(caller_name_known named_session \<and> '''' \<notin> NON_SPECIFIC_ROUTING_LABELS
    \<and> \<not> confirmation_given_this_session named_session
    \<and> determine_prompt named_session '''' = (STANDARD_SYSTEM_PROMPT, False, named_session))
   \<and> (confirmation_given_this_session
         (fst (snd (respond unwritten_env ''S1'' ''fire in the kitchen'' named_session
                      example_world)))
      \<and> map_option confirmation_given
           (rows (store (snd (snd (respond unwritten_env ''S1'' ''fire in the kitchen''
                                     named_session example_world)))) ''S1'')
         = Some False)
   \<and> (map_option confirmation_given (rows (store confirmed_world) ''S1'') = Some True
      \<and> map system_prompt_override
           (llama_requests
              (snd (call_endpoint example_cenv ''S1'' [WsBytes example_env, WsBytes example_env]
                      confirmed_world)))
         = [Some (create_confirmation_system_prompt ''Fire Department''),
            Some INITIAL_SYSTEM_PROMPT,
            Some (create_confirmation_system_prompt ''Fire Department'')])"
proof (intro conjI)
  show "map system_prompt_override
           (llama_requests
              (snd (call_endpoint example_cenv ''S1'' [WsBytes example_env, WsBytes example_env]
                      confirmed_world)))
         = [Some (create_confirmation_system_prompt ''Fire Department''),
            Some INITIAL_SYSTEM_PROMPT,
            Some (create_confirmation_system_prompt ''Fire Department'')]"
    by (simp add: confirmed_world_eq example_cenv_def example_env_def
        call_endpoint_def upsert_call_def reset_row_def fresh_row_def initial_session_def
        call_endpoint_turn_def after_stt_def respond_def route_transcript_def
        determine_prompt_def speak_def synthesize_speech_def chat_def update_call_data_def
        execute_update_def NON_SPECIFIC_ROUTING_LABELS_def Let_def strip_help strip_name)
  show "map_option confirmation_given (rows (store confirmed_world) ''S1'') = Some True"
    by (simp add: confirmed_world_eq)
  show "confirmation_given_this_session
         (fst (snd (respond unwritten_env ''S1'' ''fire in the kitchen'' named_session
                      example_world)))"
    by (simp add: respond_session route_transcript_def determine_prompt_def unwritten_env_def
          example_env_def named_session_def NON_SPECIFIC_ROUTING_LABELS_def Let_def)
  show "map_option confirmation_given
           (rows (store (snd (snd (respond unwritten_env ''S1'' ''fire in the kitchen''
                                     named_session example_world)))) ''S1'')
         = Some False"
    by (simp add: respond_unfold speak_confirmation route_transcript_def determine_prompt_def
          update_call_data_def execute_update_def unwritten_env_def example_env_def
          named_session_def example_world_def example_db_def fresh_row_def
          NON_SPECIFIC_ROUTING_LABELS_def Let_def)
qed (simp_all add: named_session_def NON_SPECIFIC_ROUTING_LABELS_def determine_prompt_def)

text \<open>
  C4, amended. In a turn where the caller's name is known, no confirmation was given
  and routing returns a label that is not empty and not in the generic set, the request
  handed to the dialogue service carries the confirmation prompt for that label, which
  contains the phrase "I am recording the details for the" followed by the label; the
  session's \<open>confirmation_given\<close> variable is set in the same step, and the row holds
  \<open>confirmation_given = True\<close> when it exists and the write succeeds. After any
  further messages of the connection, the same label resolves to the standard prompt
  and gives no second confirmation.
\<close>

theorem confirmation_phase_once:
  assumes "caller_name_known s" "\<not> confirmation_given_this_session s"
    and "routing_result env = RoutingOk (Some label)"
    and "label \<noteq> []" "label \<notin> NON_SPECIFIC_ROUTING_LABELS"
  shows "\<exists>fl s' w'. respond env sid t s w = (fl, s', w')
     \<and> llama_requests w' = llama_requests w @
          [\<lparr>session_id = sid, input_text = t,
            system_prompt_override = Some (create_confirmation_system_prompt label)\<rparr>]
     \<and> (\<exists>pre post. create_confirmation_system_prompt label
            = pre @ ''I am recording the details for the '' @ label @ post)
     \<and> s' = s\<lparr>confirmation_given_this_session := True\<rparr>
     \<and> (pool (store w) \<and> write_ok env ConfirmationWrite \<and> rows (store w) sid \<noteq> None
          \<longrightarrow> map_option confirmation_given (rows (store w') sid) = Some True)
     \<and> (\<forall>ms w2. determine_prompt (fst (snd (session_loop sid ms s' w2))) label
            = (STANDARD_SYSTEM_PROMPT, False, fst (snd (session_loop sid ms s' w2))))"
proof -
  obtain fl s' w' where r: "respond env sid t s w = (fl, s', w')"
    by (cases "respond env sid t s w") auto
  have rt: "route_transcript env sid w
     = (label, w\<lparr>store := fst (update_call_data (store w) (write_ok env RoutingWrite) (clock env)
                                sid [RoutingLabel label]),
                 outbox := outbox w @ [RoutingInfo label]\<rparr>)"
    using assms(3) by (simp add: route_transcript_def)
  have dp: "determine_prompt s label
           = (create_confirmation_system_prompt label, True,
              s\<lparr>confirmation_given_this_session := True\<rparr>)"
    using assms by (simp add: determine_prompt_confirmation)
  have s': "s' = s\<lparr>confirmation_given_this_session := True\<rparr>"
    using r respond_session [of env sid t s w] rt dp by simp
  have rq: "llama_requests w' = llama_requests w @
          [\<lparr>session_id = sid, input_text = t,
            system_prompt_override = Some (create_confirmation_system_prompt label)\<rparr>]"
    using arg_cong [OF r, of "\<lambda>x. llama_requests (snd (snd x))"] rt dp
    by (simp add: respond_unfold Let_def speak_requests)
  have st: "map_option confirmation_given (rows (store w') sid) = Some True"
    if h: "pool (store w) \<and> write_ok env ConfirmationWrite \<and> rows (store w) sid \<noteq> None"
  proof -
    define d1 where "d1 = fst (update_call_data (store w) (write_ok env RoutingWrite) (clock env)
                                sid [RoutingLabel label])"
    have "pool d1" "rows d1 sid \<noteq> None"
      using h by (simp_all add: d1_def update_call_data_pool update_call_data_rows_None)
    have c: "map_option confirmation_given
               (rows (fst (update_call_data d1 True (clock env) sid [ConfirmationGiven True])) sid)
             = Some True"
      by (rule update_call_data_sets_confirmation) fact+
    have eq: "map_option confirmation_given (rows (store w') sid)
        = map_option confirmation_given
            (rows (fst (update_call_data d1 True (clock env) sid [ConfirmationGiven True])) sid)"
      using arg_cong [OF r, of "\<lambda>x. map_option confirmation_given (rows (store (snd (snd x))) sid)"]
        rt dp h
      by (simp add: respond_unfold Let_def speak_confirmation d1_def)
    show ?thesis unfolding eq by (rule c)
  qed
  have later: "determine_prompt (fst (snd (session_loop sid ms s' w2))) label
            = (STANDARD_SYSTEM_PROMPT, False, fst (snd (session_loop sid ms s' w2)))" for ms w2
  proof -
    have "caller_name_known s' \<and> confirmation_given_this_session s'"
      using s' assms(1) by simp
    from session_loop_flags [OF this, of sid ms w2]
    show ?thesis by (simp add: determine_prompt_standard)
  qed
  from r rq s' st later confirmation_prompt_contains_phrase [of label]
  show ?thesis by blast
qed


theorem confirmation_phase_once_witness:
  "\<exists>fl w'. respond example_env ''S1'' ''fire in the kitchen'' named_session example_world
        = (fl, named_session\<lparr>confirmation_given_this_session := True\<rparr>, w')
     \<and> llama_requests w' =
          [\<lparr>session_id = ''S1'', input_text = ''fire in the kitchen'',
            system_prompt_override = Some (create_confirmation_system_prompt ''Fire Department'')\<rparr>]
     \<and> map_option confirmation_given (rows (store w') ''S1'') = Some True
     \<and> determine_prompt (named_session\<lparr>confirmation_given_this_session := True\<rparr>)
          ''Fire Department''
        = (STANDARD_SYSTEM_PROMPT, False,
           named_session\<lparr>confirmation_given_this_session := True\<rparr>)"
proof -
  have a: "caller_name_known named_session" "\<not> confirmation_given_this_session named_session"
    "routing_result example_env = RoutingOk (Some ''Fire Department'')"
    "''Fire Department'' \<noteq> []" "''Fire Department'' \<notin> NON_SPECIFIC_ROUTING_LABELS"
    by (simp_all add: named_session_def example_env_def NON_SPECIFIC_ROUTING_LABELS_def)
  have b: "pool (store example_world) \<and> write_ok example_env ConfirmationWrite
           \<and> rows (store example_world) ''S1'' \<noteq> None"
    by (simp add: example_world_def example_db_def example_env_def)
  have c: "llama_requests example_world = []"
    by (simp add: example_world_def)
  from confirmation_phase_once [OF a, of "''S1''" "''fire in the kitchen''" example_world]
  obtain fl s' w' where
    r: "respond example_env ''S1'' ''fire in the kitchen'' named_session example_world = (fl, s', w')"
    and q: "llama_requests w' = llama_requests example_world @
          [\<lparr>session_id = ''S1'', input_text = ''fire in the kitchen'',
            system_prompt_override = Some (create_confirmation_system_prompt ''Fire Department'')\<rparr>]"
    and s: "s' = named_session\<lparr>confirmation_given_this_session := True\<rparr>"
    and d: "pool (store example_world) \<and> write_ok example_env ConfirmationWrite
             \<and> rows (store example_world) ''S1'' \<noteq> None
          \<longrightarrow> map_option confirmation_given (rows (store w') ''S1'') = Some True"
    and l: "\<forall>ms w2. determine_prompt (fst (snd (session_loop ''S1'' ms s' w2))) ''Fire Department''
            = (STANDARD_SYSTEM_PROMPT, False, fst (snd (session_loop ''S1'' ms s' w2)))"
    by blast
  from l have "determine_prompt (fst (snd (session_loop ''S1'' [] s' example_world)))
                  ''Fire Department''
            = (STANDARD_SYSTEM_PROMPT, False, fst (snd (session_loop ''S1'' [] s' example_world)))"
    by blast
  then have "determine_prompt s' ''Fire Department'' = (STANDARD_SYSTEM_PROMPT, False, s')"
    by simp
  with r q s d b c show ?thesis by auto
qed

section \<open>Response events of a completed turn\<close>

lemma speak_empty: "speak env sid [] s w = (Continue, s, w)"
  by (simp add: speak_def)

lemma chat_reply_text:
  "llama = Completion content \<Longrightarrow>
     (case snd (chat m llama emo rq) of
        Inl err \<Rightarrow> ''I apologize, I encountered a problem. Could you please repeat?''
      | Inr r \<Rightarrow> response_text r) = strip content"
  by (simp add: chat_def Let_def)

lemma route_transcript_outbox:
  "\<exists>label. outbox (snd (route_transcript env sid w)) = outbox w @ [RoutingInfo label]"
  by (simp add: route_transcript_def Let_def split: routing_outcome.splits)

lemma respond_empty_reply:
  assumes "llama_result env = Completion content" "strip content = []"
  shows "fst (respond env sid t s w) = Continue
       \<and> outbox (snd (snd (respond env sid t s w))) = outbox (snd (route_transcript env sid w))"
  by (simp add: respond_unfold Let_def chat_reply_text [OF assms(1)] assms(2) speak_empty)

text \<open>
  C6. In \<open>main.py\<close> the synthesis stage is guarded by \<open>if ai_response_content:\<close> and
  has no \<open>else\<close> branch: when the gate is open, speech-to-text answers 200 with a
  transcript that is not empty and the dialogue service returns a text that is empty
  after \<open>strip()\<close>, the turn completes with the transcript and routing events only and
  sends no response event at all. (The sibling \<open>stt_translate.py\<close> sends a text-only
  \<open>ai-response\<close> in this case.)
\<close>

theorem empty_reply_sends_no_response:
  assumes "pool (store w)" "handler_query_ok env"
    and "map_option handled_by (rows (store w) sid) = Some AI"
    and "stt_result env = SttResponse 200 (SttJson transcript language_code)"
    and "strip transcript \<noteq> []"
    and "llama_result env = Completion content" "strip content = []"
  shows "\<exists>s' w'. call_endpoint_turn env sid s w = (Continue, s', w')
           \<and> (\<exists>label. outbox w' = outbox w @ [TranscriptEvent (strip transcript), RoutingInfo label])
           \<and> filter is_response_event (outbox w') = filter is_response_event (outbox w)"
proof -
  obtain fl s' w' where t: "call_endpoint_turn env sid s w = (fl, s', w')"
    by (cases "call_endpoint_turn env sid s w") auto
  define s1 where "s1 = s\<lparr>current_handler := AI\<rparr>"
  define s2 where "s2 = (if awaiting_name s1 \<and> \<not> caller_name_known s1
                         then s1\<lparr>caller_name_known := True, awaiting_name := False\<rparr> else s1)"
  define w1 where "w1 = snd (snd (after_stt env sid transcript language_code s1 w))"
  obtain w0 where
    a: "after_stt env sid transcript language_code s1 w
          = respond env sid (strip transcript) s2 w0"
    and o: "outbox w0 = outbox w @ [TranscriptEvent (strip transcript)]"
    using assms(5) by (simp add: after_stt_def Let_def s2_def)
  have tt: "call_endpoint_turn env sid s w = respond env sid (strip transcript) s2 w0"
    using assms(1-4) a by (auto simp: call_endpoint_turn_def s1_def)
  have r: "respond env sid (strip transcript) s2 w0 = (fl, s', w')"
    using tt t by simp
  have fl: "fl = Continue" and ob: "outbox w' = outbox (snd (route_transcript env sid w0))"
    using respond_empty_reply [OF assms(6,7), of sid "strip transcript" s2 w0]
    by (simp_all add: r)
  from route_transcript_outbox [of env sid w0] ob o
  obtain label where
    "outbox w' = outbox w @ [TranscriptEvent (strip transcript), RoutingInfo label]"
    by auto
  with t fl show ?thesis by simp
qed

theorem empty_reply_sends_no_response_witness:
  "\<exists>s' w' label. call_endpoint_turn silent_env ''S1'' (initial_session example_db ''S1'') example_world
        = (Continue, s', w')
     \<and> outbox w' = [TranscriptEvent ''help'', RoutingInfo label]
     \<and> filter is_response_event (outbox w') = []"
proof -
  have a: "pool (store example_world)" "handler_query_ok silent_env"
    "map_option handled_by (rows (store example_world) ''S1'') = Some AI"
    "stt_result silent_env = SttResponse 200 (SttJson ''help'' None)"
    "strip ''help'' \<noteq> []"
    "llama_result silent_env = Completion ''  ''" "strip ''  '' = []"
    by (simp_all add: example_world_def example_db_def fresh_row_def silent_env_def
          example_env_def strip_def is_space_def)
  have "outbox example_world = []" by (simp add: example_world_def)
  with empty_reply_sends_no_response [OF a, of "initial_session example_db ''S1''"]
  show ?thesis by (auto simp: strip_help)
qed

text \<open>
  A second way a completed dialogue stage yields no response event in \<open>main.py\<close>: a
  reply longer than 500 characters fails the validation of \<open>TTSRequest\<close> and ends the
  session through the turn's last \<open>except\<close> clause.
\<close>

lemma long_reply_ends_session:
  assumes "length txt > 500"
  shows "speak env sid txt s w
     = (Break, s,
        w\<lparr>outbox := outbox w @ [ErrorEvent ''Server error processing audio.''],
          store := fst (update_call_data (store w) (write_ok env StatusWrite) (clock env) sid
                          [Status Error])\<rparr>)"
  using assms by (auto simp: speak_def fail_turn_def)


section \<open>Cleaning the text for speech is idempotent\<close>

lemma is_space_blank: "is_space (CHR '' '')"
  by (simp add: is_space_def)

lemma mark_not_space: "\<not> is_space (CHR ''?'')" "\<not> is_space (CHR ''!'')"
  by (simp_all add: is_space_def)

lemma hd_collapse_whitespace:
  "s \<noteq> [] \<Longrightarrow> \<not> is_space (hd s) \<Longrightarrow>
     collapse_whitespace s \<noteq> [] \<and> hd (collapse_whitespace s) = hd s"
  by (cases s) simp_all

lemma dropWhile_hd: "dropWhile P xs \<noteq> [] \<Longrightarrow> \<not> P (hd (dropWhile P xs))"
  by (simp add: hd_dropWhile)

lemma squeezed_collapse_whitespace: "squeezed (collapse_whitespace s)"
proof (induction s rule: collapse_whitespace.induct)
  case 1
  show ?case by simp
next
  case (2 c cs)
  show ?case
  proof (cases "is_space c")
    case True
    let ?r = "dropWhile is_space cs"
    have "collapse_whitespace ?r = [] \<or> \<not> is_space (hd (collapse_whitespace ?r))"
    proof (cases "?r = []")
      case True
      then have "collapse_whitespace ?r = collapse_whitespace []" by (rule arg_cong)
      then show ?thesis by (simp only: collapse_whitespace.simps) simp
    next
      case False
      then have "\<not> is_space (hd ?r)" by (rule dropWhile_hd)
      with False hd_collapse_whitespace [of ?r] show ?thesis by simp
    qed
    with True 2 show ?thesis by (simp add: is_space_blank)
  next
    case False
    with 2 show ?thesis by simp
  qed
qed

lemma collapse_whitespace_marks:
  "set (collapse_whitespace s) \<subseteq> insert (CHR '' '') (set s)"
proof (induction s rule: collapse_whitespace.induct)
  case 1
  show ?case by simp
next
  case (2 c cs)
  show ?case
  proof (cases "is_space c")
    case True
    have "set (dropWhile is_space cs) \<subseteq> set cs"
      using set_dropWhileD by fastforce
    with True 2 show ?thesis by auto
  next
    case False
    with 2 show ?thesis by auto
  qed
qed

lemma collapse_whitespace_squeezed: "squeezed s \<Longrightarrow> collapse_whitespace s = s"
proof (induction s)
  case Nil
  show ?case by simp
next
  case (Cons c cs)
  show ?case
  proof (cases "is_space c")
    case True
    with Cons.prems have "c = CHR '' ''" "cs = [] \<or> \<not> is_space (hd cs)" by simp_all
    then have "dropWhile is_space cs = cs" by (cases cs) auto
    with True Cons \<open>c = CHR '' ''\<close> show ?thesis by simp
  next
    case False
    with Cons show ?thesis by simp
  qed
qed

lemma squeezed_dropWhile: "squeezed s \<Longrightarrow> squeezed (dropWhile P s)"
  by (induction s) auto

lemma squeezed_prefix: "squeezed (xs @ ys) \<Longrightarrow> squeezed xs"
proof (induction xs)
  case Nil
  show ?case by simp
next
  case (Cons x xs)
  then show ?case by (cases xs) auto
qed

lemma strip_decompose: "\<exists>pre post. pre @ strip s @ post = s"
proof -
  let ?d = "dropWhile is_space s"
  have "rev (rev ?d) = rev (takeWhile is_space (rev ?d) @ dropWhile is_space (rev ?d))"
    by (simp only: takeWhile_dropWhile_id)
  then have "?d = strip s @ rev (takeWhile is_space (rev ?d))"
    by (simp only: rev_rev_ident rev_append strip_def)
  moreover have "s = takeWhile is_space s @ ?d"
    by (simp only: takeWhile_dropWhile_id)
  ultimately have "takeWhile is_space s @ strip s @ rev (takeWhile is_space (rev ?d)) = s"
    by simp
  then show ?thesis by blast
qed

lemma squeezed_suffix: "squeezed (xs @ ys) \<Longrightarrow> squeezed ys"
  by (induction xs) auto

lemma squeezed_strip: "squeezed s \<Longrightarrow> squeezed (strip s)"
proof -
  assume q: "squeezed s"
  obtain pre post where d: "pre @ strip s @ post = s"
    using strip_decompose [of s] by blast
  from q d have "squeezed (pre @ strip s @ post)" by simp
  then have "squeezed (strip s @ post)" by (rule squeezed_suffix)
  then show ?thesis by (rule squeezed_prefix)
qed

lemma set_strip: "set (strip s) \<subseteq> set s"
proof -
  obtain pre post where d: "pre @ strip s @ post = s"
    using strip_decompose [of s] by blast
  have "set (strip s) \<subseteq> set (pre @ strip s @ post)" by auto
  with d show ?thesis by simp
qed

lemma dropWhile_rev_last:
  "xs \<noteq> [] \<Longrightarrow> \<not> P (hd xs) \<Longrightarrow> dropWhile P (rev xs) \<noteq> [] \<and>
     last (dropWhile P (rev xs)) = hd xs"
proof (induction xs rule: rev_induct)
  case Nil
  then show ?case by simp
next
  case (snoc x xs)
  show ?case
  proof (cases xs)
    case Nil
    with snoc.prems show ?thesis by simp
  next
    case (Cons y ys)
    with snoc.prems have "\<not> P (hd xs)" "xs \<noteq> []" by simp_all
    with snoc.IH have "dropWhile P (rev xs) \<noteq> [] \<and> last (dropWhile P (rev xs)) = hd xs"
      by simp
    with Cons show ?thesis by simp
  qed
qed

lemma strip_ends:
  "strip s \<noteq> [] \<Longrightarrow> \<not> is_space (hd (strip s)) \<and> \<not> is_space (last (strip s))"
proof -
  assume n: "strip s \<noteq> []"
  let ?d = "dropWhile is_space s"
  let ?e = "dropWhile is_space (rev ?d)"
  have e: "?e \<noteq> []" using n by (simp add: strip_def)
  then have l: "\<not> is_space (hd ?e)" by (rule dropWhile_hd)
  have la: "last (strip s) = hd ?e" using e by (simp add: strip_def last_rev)
  have d: "?d \<noteq> []"
  proof
    assume "?d = []"
    then have "?e = dropWhile is_space (rev [])" by (rule arg_cong)
    with e show False by simp
  qed
  then have nh: "\<not> is_space (hd ?d)" by (rule dropWhile_hd)
  from dropWhile_rev_last [of "?d" is_space, OF d nh] have "last ?e = hd ?d" by simp
  then have "hd (strip s) = hd ?d" using e by (simp add: strip_def hd_rev)
  with nh l la show ?thesis by simp
qed

lemma strip_fixed:
  assumes "s = [] \<or> \<not> is_space (hd s) \<and> \<not> is_space (last s)"
  shows "strip s = s"
proof (cases s)
  case Nil
  then show ?thesis by (simp add: strip_def)
next
  case (Cons c cs)
  with assms have h: "\<not> is_space c" and l: "\<not> is_space (last s)" by simp_all
  from h Cons have d: "dropWhile is_space s = s" by simp
  obtain y ys where r: "rev s = y # ys" using Cons by (cases "rev s") auto
  then have "hd (rev s) = y" by simp
  moreover have "hd (rev s) = last s" using Cons by (simp add: hd_rev)
  ultimately have "\<not> is_space y" using l by simp
  with r have "dropWhile is_space (rev s) = rev s" by simp
  with d show ?thesis by (simp add: strip_def)
qed

lemma remove_marks_no_marks: "c \<in> set (remove_marks s) \<Longrightarrow> c \<noteq> CHR ''?'' \<and> c \<noteq> CHR ''!''"
  by (simp add: remove_marks_def)

lemma blank_no_mark: "CHR '' '' \<noteq> CHR ''?'' \<and> CHR '' '' \<noteq> CHR ''!''"
  by simp

lemma remove_marks_fixed:
  assumes "\<And>c. c \<in> set s \<Longrightarrow> c \<noteq> CHR ''?'' \<and> c \<noteq> CHR ''!''"
  shows "remove_marks s = s"
  unfolding remove_marks_def by (rule filter_True) (use assms in blast)

text \<open>
  C9. The cleaning step is a function of its input, and applying it twice gives the
  same text as applying it once.
\<close>

theorem clean_text_for_tts_idempotent:
  "clean_text_for_tts (clean_text_for_tts s) = clean_text_for_tts s"
proof (cases "s = []")
  case True
  then show ?thesis by (simp add: clean_text_for_tts_def)
next
  case False
  define u where "u = collapse_whitespace (remove_marks s)"
  define v where "v = strip u"
  have cv: "clean_text_for_tts s = v"
    using False by (simp add: clean_text_for_tts_def u_def v_def)
  have rm: "remove_marks v = v"
  proof (rule remove_marks_fixed)
    fix c
    assume "c \<in> set v"
    then have "c \<in> set u" using set_strip [of u] by (auto simp: v_def)
    then have "c \<in> insert (CHR '' '') (set (remove_marks s))"
      using collapse_whitespace_marks [of "remove_marks s"] by (auto simp: u_def)
    then have "c = CHR '' '' \<or> c \<in> set (remove_marks s)" by simp
    then show "c \<noteq> CHR ''?'' \<and> c \<noteq> CHR ''!''"
    proof
      assume "c = CHR '' ''"
      then show ?thesis by simp
    next
      assume "c \<in> set (remove_marks s)"
      then show ?thesis by (rule remove_marks_no_marks)
    qed
  qed
  have "squeezed u" unfolding u_def by (rule squeezed_collapse_whitespace)
  then have "squeezed v" unfolding v_def by (rule squeezed_strip)
  then have cw: "collapse_whitespace v = v" by (rule collapse_whitespace_squeezed)
  have "v = [] \<or> \<not> is_space (hd v) \<and> \<not> is_space (last v)"
    using strip_ends [of u] unfolding v_def by blast
  then have st: "strip v = v" by (rule strip_fixed)
  have "clean_text_for_tts v = v"
  proof (cases "v = []")
    case True
    then show ?thesis by (simp add: clean_text_for_tts_def)
  next
    case False
    then have "clean_text_for_tts v = strip (collapse_whitespace (remove_marks v))"
      by (simp add: clean_text_for_tts_def)
    also have "\<dots> = v" by (simp only: rm cw st)
    finally show ?thesis .
  qed
  then show ?thesis by (simp only: cv)
qed

theorem clean_text_for_tts_idempotent_witness:
  "clean_text_for_tts (clean_text_for_tts ''  Hello!!  are   you ok??  '') = ''Hello are you ok''"
proof -
  have "clean_text_for_tts ''  Hello!!  are   you ok??  '' = ''Hello are you ok''"
    by (simp add: clean_text_for_tts_def remove_marks_def strip_def is_space_def)
  with clean_text_for_tts_idempotent [of "''  Hello!!  are   you ok??  ''"]
  show ?thesis by simp
qed

section \<open>When the stages after speech-to-text are skipped\<close>

lemma speak_outbox:
  "outbox (snd (snd (speak env sid txt s w))) = outbox w @ speak_events env txt"
  by (simp add: speak_def fail_turn_def speak_events_def split: sum.splits)

lemma route_transcript_requests:
  "llama_requests (snd (route_transcript env sid w)) = llama_requests w"
  by (simp add: route_transcript_def Let_def split: routing_outcome.splits)

lemma respond_effects:
  "\<exists>label p rest.
      outbox (snd (snd (respond env sid t s w))) = outbox w @ [RoutingInfo label] @ rest
    \<and> llama_requests (snd (snd (respond env sid t s w)))
        = llama_requests w @
            [\<lparr>session_id = sid, input_text = t, system_prompt_override = Some p\<rparr>]"
proof -
  obtain label where l: "outbox (snd (route_transcript env sid w)) = outbox w @ [RoutingInfo label]"
    using route_transcript_outbox [of env sid w] by blast
  show ?thesis
    by (simp add: respond_unfold Let_def speak_requests speak_outbox l route_transcript_requests)
qed

lemma after_stt_skip:
  "(strip t = [] \<longrightarrow>
      fst (after_stt env sid t lang s w) = Continue
      \<and> outbox (snd (snd (after_stt env sid t lang s w))) = outbox w @ [TranscriptEvent []]
      \<and> llama_requests (snd (snd (after_stt env sid t lang s w))) = llama_requests w)
   \<and> (strip t \<noteq> [] \<longrightarrow>
      (\<exists>label p rest.
         outbox (snd (snd (after_stt env sid t lang s w)))
           = outbox w @ [TranscriptEvent (strip t), RoutingInfo label] @ rest
       \<and> llama_requests (snd (snd (after_stt env sid t lang s w)))
           = llama_requests w @
               [\<lparr>session_id = sid, input_text = strip t, system_prompt_override = Some p\<rparr>]))"
proof (intro conjI impI)
  assume n: "strip t \<noteq> []"
  define s1 where "s1 = (if awaiting_name s \<and> \<not> caller_name_known s
                         then s\<lparr>caller_name_known := True, awaiting_name := False\<rparr> else s)"
  obtain w1 where a: "after_stt env sid t lang s w = respond env sid (strip t) s1 w1"
    and o: "outbox w1 = outbox w @ [TranscriptEvent (strip t)]"
    and q: "llama_requests w1 = llama_requests w"
    using n by (simp add: after_stt_def Let_def s1_def)
  from respond_effects [of env sid "strip t" s1 w1] a o q
  show "\<exists>label p rest.
         outbox (snd (snd (after_stt env sid t lang s w)))
           = outbox w @ [TranscriptEvent (strip t), RoutingInfo label] @ rest
       \<and> llama_requests (snd (snd (after_stt env sid t lang s w)))
           = llama_requests w @
               [\<lparr>session_id = sid, input_text = strip t, system_prompt_override = Some p\<rparr>]"
    by auto
qed (simp_all add: after_stt_def Let_def)
lemma stt_speak_outbox:
  "\<exists>ev. outbox (stt_speak env sid txt w) = outbox w @ [ev] \<and> is_response_event ev"
  by (simp add: stt_speak_def split: service_reply.splits)

lemma stt_speak_requests: "llama_requests (stt_speak env sid txt w) = llama_requests w"
  by (simp add: stt_speak_def split: service_reply.splits)

lemma stt_route_transcript_outbox:
  "\<exists>label. outbox (snd (stt_route_transcript env sid w)) = outbox w @ [RoutingInfo label]"
  by (simp add: stt_route_transcript_def Let_def split: routing_outcome.splits)

lemma stt_route_transcript_requests:
  "llama_requests (snd (stt_route_transcript env sid w)) = llama_requests w"
  by (simp add: stt_route_transcript_def Let_def split: routing_outcome.splits)

lemma stt_respond_unfold:
  "stt_respond env sid t s w =
     (let rt = stt_route_transcript env sid w;
          dp = stt_determine_prompt s (fst rt);
          w2 = (if fst (snd dp)
                then (snd rt)\<lparr>store := fst (update_call_data (store (snd rt))
                                       (s_write_ok env ConfirmationWrite)
                                       (s_clock env) sid [ConfirmationGiven True])\<rparr>
                else snd rt);
          llama_payload = \<lparr>session_id = sid, input_text = t,
                           system_prompt_override = Some (fst dp)\<rparr>;
          ll = stt_llama env (chat_history (snd (snd dp)));
          w3 = w2\<lparr>llama_requests := llama_requests w2 @ [llama_payload]\<rparr>
      in (Continue, (snd (snd dp))\<lparr>chat_history := snd ll\<rparr>,
          stt_speak env sid (stt_translate_reply env (fst ll)) w3))"
  by (simp add: stt_respond_def Let_def split: prod.splits)

lemma stt_respond_effects:
  "\<exists>label p ev.
      outbox (snd (snd (stt_respond env sid t s w))) = outbox w @ [RoutingInfo label, ev]
    \<and> is_response_event ev
    \<and> llama_requests (snd (snd (stt_respond env sid t s w)))
        = llama_requests w @
            [\<lparr>session_id = sid, input_text = t, system_prompt_override = Some p\<rparr>]"
proof -
  obtain label where
    l: "outbox (snd (stt_route_transcript env sid w)) = outbox w @ [RoutingInfo label]"
    using stt_route_transcript_outbox [of env sid w] by blast
  define w3 where "w3 = snd (snd (stt_respond env sid t s w))"
  obtain tx w2 where w3: "w3 = stt_speak env sid tx w2"
    and o2: "outbox w2 = outbox w @ [RoutingInfo label]"
    and q2: "llama_requests w2 = llama_requests w @
            [\<lparr>session_id = sid, input_text = t,
              system_prompt_override =
                Some (fst (stt_determine_prompt s (fst (stt_route_transcript env sid w))))\<rparr>]"
    by (simp add: w3_def stt_respond_unfold Let_def l stt_route_transcript_requests)
  obtain ev where "outbox w3 = outbox w2 @ [ev]" "is_response_event ev"
    using stt_speak_outbox [of env sid tx w2] w3 by auto
  moreover have "llama_requests w3 = llama_requests w2"
    using w3 by (simp add: stt_speak_requests)
  ultimately show ?thesis using o2 q2 unfolding w3_def by auto
qed

lemma stt_after_stt_skip:
  "(strip t = [] \<and> chat_history s = [] \<longrightarrow>
      fst (stt_after_stt env sid t lang s w) = Continue
      \<and> outbox (snd (snd (stt_after_stt env sid t lang s w))) = outbox w @ [TranscriptEvent []]
      \<and> llama_requests (snd (snd (stt_after_stt env sid t lang s w))) = llama_requests w)
   \<and> (\<not> (strip t = [] \<and> chat_history s = []) \<longrightarrow>
      (\<exists>label p ev.
         outbox (snd (snd (stt_after_stt env sid t lang s w)))
           = outbox w @ [TranscriptEvent (strip t), RoutingInfo label, ev]
       \<and> is_response_event ev
       \<and> llama_requests (snd (snd (stt_after_stt env sid t lang s w)))
           = llama_requests w @
               [\<lparr>session_id = sid, input_text = strip t, system_prompt_override = Some p\<rparr>]))"
proof (intro conjI impI)
  assume n: "\<not> (strip t = [] \<and> chat_history s = [])"
  define store_name where
    "store_name = (awaiting_name s \<and> strip t \<noteq> [] \<and> \<not> caller_name_known s)"
  define s1 where
    "s1 = (if store_name then s\<lparr>caller_name_known := True, awaiting_name := False\<rparr> else s)"
  define s2 where
    "s2 = (if strip t \<noteq> [] then s1\<lparr>chat_history := chat_history s1 @ [(User, strip t)]\<rparr>
           else s1)"
  define payload where
    "payload = [LastTranscript (strip t)] @
            (case lang of None \<Rightarrow> [] | Some l \<Rightarrow> if l \<noteq> [] then [DetectedLanguage l] else [])"
  define w1 where
    "w1 = w\<lparr>store := fst (update_call_data (store w) (s_write_ok env TranscriptWrite)
                          (s_clock env) sid
                          (if store_name then payload @ [CallerName (take 255 (strip t))]
                           else payload)),
            outbox := outbox w @ [TranscriptEvent (strip t)]\<rparr>"
  have u: "stt_after_stt env sid t lang s w =
      (if strip t = [] \<and> chat_history s2 = [] then (Continue, s2, w1)
       else stt_respond env sid (strip t) s2 w1)"
    unfolding stt_after_stt_def Let_def store_name_def s1_def s2_def payload_def w1_def ..
  have "chat_history s1 = chat_history s" by (simp add: s1_def)
  then have "\<not> (strip t = [] \<and> chat_history s2 = [])"
    using n by (simp add: s2_def)
  with u have a: "stt_after_stt env sid t lang s w = stt_respond env sid (strip t) s2 w1"
    by simp
  have o: "outbox w1 = outbox w @ [TranscriptEvent (strip t)]"
    and q: "llama_requests w1 = llama_requests w"
    by (simp_all add: w1_def)
  from stt_respond_effects [of env sid "strip t" s2 w1] a o q
  show "\<exists>label p ev.
         outbox (snd (snd (stt_after_stt env sid t lang s w)))
           = outbox w @ [TranscriptEvent (strip t), RoutingInfo label, ev]
       \<and> is_response_event ev
       \<and> llama_requests (snd (snd (stt_after_stt env sid t lang s w)))
           = llama_requests w @
               [\<lparr>session_id = sid, input_text = strip t, system_prompt_override = Some p\<rparr>]"
    by auto
qed (simp_all add: stt_after_stt_def Let_def)

lemma strip_blank: "strip ''  '' = []" "strip [] = []" "strip ''fire'' = ''fire''"
  "strip ''hello'' = ''hello''"
  "strip ''Could I please get your name?'' = ''Could I please get your name?''"
  by (simp_all add: strip_def is_space_def)

text \<open>
  C7, as stated, fails for \<open>main.py\<close>: its guard is \<open>if not user_transcript: continue\<close>,
  so a turn whose transcript is empty is skipped after the transcript event even when
  the session already has a conversation history.
\<close>

theorem main_skips_with_history_counterexample:
  "chat_memory history_world ''S1''
     = Some [(User, ''hello''), (Assistant, ''Could I please get your name?'')]
   \<and> call_endpoint_turn silence_env ''S1'' (initial_session example_db ''S1'') history_world
     = (Continue, initial_session example_db ''S1'',
        history_world\<lparr>store := fst (update_call_data example_db True 31 ''S1'' [LastTranscript []]),
                       outbox := [TranscriptEvent []]\<rparr>)"
  by (simp add: history_world_def example_world_def silence_env_def example_env_def
        example_db_def fresh_row_def initial_session_def call_endpoint_turn_def after_stt_def
        Let_def strip_blank)

text \<open>
  C7, amended. In \<open>stt_translate.py\<close> the stages after the transcript event are
  skipped exactly when the transcript is empty and the history is empty: then only the
  transcript event is sent and nothing goes to the dialogue service; otherwise the turn
  sends the routing event, one request to the dialogue service and one response event,
  also for an empty transcript with a history. In \<open>main.py\<close> the stages are skipped
  exactly when the transcript is empty, whatever the history.
\<close>

theorem skip_rule_of_each_orchestrator:
  "((strip t = [] \<and> chat_history ss = [] \<longrightarrow>
      fst (stt_after_stt senv sid t lang ss w) = Continue
      \<and> outbox (snd (snd (stt_after_stt senv sid t lang ss w))) = outbox w @ [TranscriptEvent []]
      \<and> llama_requests (snd (snd (stt_after_stt senv sid t lang ss w))) = llama_requests w)
   \<and> (\<not> (strip t = [] \<and> chat_history ss = []) \<longrightarrow>
      (\<exists>label p ev.
         outbox (snd (snd (stt_after_stt senv sid t lang ss w)))
           = outbox w @ [TranscriptEvent (strip t), RoutingInfo label, ev]
       \<and> is_response_event ev
       \<and> llama_requests (snd (snd (stt_after_stt senv sid t lang ss w)))
           = llama_requests w @
               [\<lparr>session_id = sid, input_text = strip t, system_prompt_override = Some p\<rparr>])))
   \<and> ((strip t = [] \<longrightarrow>
      fst (after_stt env sid t lang s w) = Continue
      \<and> outbox (snd (snd (after_stt env sid t lang s w))) = outbox w @ [TranscriptEvent []]
      \<and> llama_requests (snd (snd (after_stt env sid t lang s w))) = llama_requests w)
   \<and> (strip t \<noteq> [] \<longrightarrow>
      (\<exists>label p rest.
         outbox (snd (snd (after_stt env sid t lang s w)))
           = outbox w @ [TranscriptEvent (strip t), RoutingInfo label] @ rest
       \<and> llama_requests (snd (snd (after_stt env sid t lang s w)))
           = llama_requests w @
               [\<lparr>session_id = sid, input_text = strip t, system_prompt_override = Some p\<rparr>])))"
  by (rule conjI [OF stt_after_stt_skip after_stt_skip])

theorem skip_rule_of_each_orchestrator_witness:
  "(\<exists>label p ev.
      outbox (snd (snd (stt_after_stt stt_env2 ''S1'' [] None stt_history_session example_world)))
        = [TranscriptEvent [], RoutingInfo label, ev]
      \<and> is_response_event ev
      \<and> llama_requests (snd (snd (stt_after_stt stt_env2 ''S1'' [] None stt_history_session
                                    example_world)))
        = [\<lparr>session_id = ''S1'', input_text = [], system_prompt_override = Some p\<rparr>])
   \<and> outbox (snd (snd (after_stt silence_env ''S1'' [] None (initial_session example_db ''S1'')
                         example_world)))
        = [TranscriptEvent []]"
proof -
  have a: "strip [] = []" "chat_history stt_history_session \<noteq> []"
    "outbox example_world = []" "llama_requests example_world = []"
    by (simp_all add: strip_blank stt_history_session_def example_world_def)
  from skip_rule_of_each_orchestrator
         [of "[]" stt_history_session stt_env2 "''S1''" None example_world silence_env
             "initial_session example_db ''S1''"] a
  show ?thesis by simp
qed


section \<open>The name-capture phase\<close>

lemma initial_prompt_distinct:
  "INITIAL_SYSTEM_PROMPT \<noteq> STANDARD_SYSTEM_PROMPT"
  "INITIAL_SYSTEM_PROMPT \<noteq> stt_create_confirmation_system_prompt label"
  by (simp_all add: INITIAL_SYSTEM_PROMPT_def STANDARD_SYSTEM_PROMPT_def
        stt_create_confirmation_system_prompt_def)

lemma determine_prompt_unknown_name:
  "\<not> caller_name_known s \<Longrightarrow>
     determine_prompt s label = (INITIAL_SYSTEM_PROMPT, False, s\<lparr>awaiting_name := True\<rparr>)"
  by (simp add: determine_prompt_def)

lemma respond_unknown_name:
  assumes "\<not> caller_name_known s"
  shows "fst (snd (respond env sid t s w)) = s\<lparr>awaiting_name := True\<rparr>
       \<and> llama_requests (snd (snd (respond env sid t s w)))
           = llama_requests w @
               [\<lparr>session_id = sid, input_text = t,
                 system_prompt_override = Some INITIAL_SYSTEM_PROMPT\<rparr>]"
  by (simp add: respond_unfold Let_def speak_session speak_requests
        determine_prompt_unknown_name [OF assms] route_transcript_requests)

lemma clean_name_question: "clean_text_for_tts ''Could I please get your name?'' \<noteq> []"
  by (simp add: clean_text_for_tts_def remove_marks_def strip_def is_space_def)

text \<open>
  C3, as stated, fails for \<open>stt_translate.py\<close>, which picks the first prompt from the
  length of \<open>chat_history\<close>. After a first turn "hello" that the dialogue service
  answers, a silent second turn and a third turn "fire" are processed with the caller's
  name still unknown, and they get the standard and the confirmation prompt, not the
  ask-for-name prompt.
\<close>

theorem stt_unknown_name_not_name_capture_counterexample:
  "\<not> caller_name_known
       (fst (snd (stt_session_loop ''S1'' [WsBytes stt_env1, WsBytes stt_env2, WsBytes stt_env3]
                    (stt_initial_session example_db ''S1'') example_world)))
   \<and> map input_text
         (llama_requests
            (snd (snd (stt_session_loop ''S1'' [WsBytes stt_env1, WsBytes stt_env2, WsBytes stt_env3]
                         (stt_initial_session example_db ''S1'') example_world))))
       = [''hello'', [], ''fire'']
   \<and> map system_prompt_override
         (llama_requests
            (snd (snd (stt_session_loop ''S1'' [WsBytes stt_env1, WsBytes stt_env2, WsBytes stt_env3]
                         (stt_initial_session example_db ''S1'') example_world))))
       = [Some INITIAL_SYSTEM_PROMPT, Some STANDARD_SYSTEM_PROMPT,
          Some (stt_create_confirmation_system_prompt ''Fire Department'')]"
  by (simp add: stt_env1_def stt_env2_def stt_env3_def stt_initial_session_def
        initial_session_def example_world_def example_db_def fresh_row_def
        session.extend_def stt_translate_turn_def stt_after_stt_def stt_respond_def
        stt_route_transcript_def stt_determine_prompt_def stt_llama_def
        stt_translate_reply_def stt_speak_def clean_name_question
        update_call_data_def execute_update_def NON_SPECIFIC_ROUTING_LABELS_def
        Let_def strip_blank)

text \<open>
  C3, amended. In \<open>main.py\<close>, whenever the caller's name is not known the resolved
  prompt is the ask-for-name prompt, it is what the dialogue service receives, and
  \<open>awaiting_name\<close> is set, whatever the routing label, the confirmation state and the
  history. In \<open>stt_translate.py\<close> the ask-for-name prompt is resolved exactly when the
  history is empty or is a single user entry with the name unknown; in every other turn
  another prompt is used and \<open>awaiting_name\<close> is cleared, also when the name is
  unknown.
\<close>

theorem name_capture_prompt_rule:
  "(\<not> caller_name_known s \<longrightarrow>
      determine_prompt s label = (INITIAL_SYSTEM_PROMPT, False, s\<lparr>awaiting_name := True\<rparr>)
      \<and> fst (snd (respond env sid t s w)) = s\<lparr>awaiting_name := True\<rparr>
      \<and> llama_requests (snd (snd (respond env sid t s w)))
           = llama_requests w @
               [\<lparr>session_id = sid, input_text = t,
                 system_prompt_override = Some INITIAL_SYSTEM_PROMPT\<rparr>])
   \<and> (chat_history ss = [] \<or>
        (length (chat_history ss) = 1 \<and> fst (hd (chat_history ss)) = User
         \<and> \<not> caller_name_known ss)
       \<longrightarrow> stt_determine_prompt ss label
             = (INITIAL_SYSTEM_PROMPT, False, ss\<lparr>awaiting_name := True\<rparr>))
   \<and> (\<not> (chat_history ss = [] \<or>
           (length (chat_history ss) = 1 \<and> fst (hd (chat_history ss)) = User
            \<and> \<not> caller_name_known ss))
       \<longrightarrow> fst (stt_determine_prompt ss label) \<noteq> INITIAL_SYSTEM_PROMPT
           \<and> \<not> awaiting_name (snd (snd (stt_determine_prompt ss label))))"
proof (intro conjI impI)
  assume n: "\<not> (chat_history ss = [] \<or>
           (length (chat_history ss) = 1 \<and> fst (hd (chat_history ss)) = User
            \<and> \<not> caller_name_known ss))"
  show "fst (stt_determine_prompt ss label) \<noteq> INITIAL_SYSTEM_PROMPT"
    by (simp only: stt_determine_prompt_def n if_False Let_def)
       (simp add: initial_prompt_distinct [THEN not_sym])
  show "\<not> awaiting_name (snd (snd (stt_determine_prompt ss label)))"
    by (simp only: stt_determine_prompt_def n if_False Let_def) simp
next
  assume c: "chat_history ss = [] \<or>
        (length (chat_history ss) = 1 \<and> fst (hd (chat_history ss)) = User
         \<and> \<not> caller_name_known ss)"
  show "stt_determine_prompt ss label
             = (INITIAL_SYSTEM_PROMPT, False, ss\<lparr>awaiting_name := True\<rparr>)"
    by (simp only: stt_determine_prompt_def c if_True)
qed (simp_all add: determine_prompt_unknown_name respond_unknown_name)

theorem name_capture_prompt_rule_witness:
  "determine_prompt (initial_session example_db ''S1'') ''Fire Department''
     = (INITIAL_SYSTEM_PROMPT, False, (initial_session example_db ''S1'')\<lparr>awaiting_name := True\<rparr>)
   \<and> fst (stt_determine_prompt stt_history_session ''Fire Department'') \<noteq> INITIAL_SYSTEM_PROMPT
   \<and> \<not> awaiting_name (snd (snd (stt_determine_prompt stt_history_session ''Fire Department'')))"
proof -
  have a: "\<not> caller_name_known (initial_session example_db ''S1'')"
    by (simp add: initial_session_def example_db_def fresh_row_def)
  have b: "\<not> (chat_history stt_history_session = [] \<or>
           (length (chat_history stt_history_session) = 1
            \<and> fst (hd (chat_history stt_history_session)) = User
            \<and> \<not> caller_name_known stt_history_session))"
    by (simp add: stt_history_session_def)
  from name_capture_prompt_rule
         [of "initial_session example_db ''S1''" "''Fire Department''" example_env "''S1''"
             "''fire''" example_world stt_history_session] a b
  show ?thesis by blast
qed


end
